theory Spec2Isabelle
  imports Main "HOL-Library.Word" "HOL-Library.Sublist"
begin

section \<open>The upload handler of soju-upload-handler-aws\<close>

text \<open>
  The repository holds two revisions of the Lambda handler \<open>upload\<close>: the one in
  \<^verbatim>\<open>src/unnamed/part_001\<close> (size gate, content sniffing, MIME allow-list, status 201)
  and the one in \<^verbatim>\<open>src/index.ts\<close> (no size gate, \<open>image/\<close> prefix test, status 200).
  Both share, word for word, the helpers \<open>filenameWithRandomSuffix\<close> and
  \<open>uniqueFilenameForBucket\<close>. The handler of part_001 is \<open>upload\<close> below, the one
  of index.ts is \<open>upload_index\<close>.

  JavaScript strings are modelled as \<^typ>\<open>string\<close>: the handler only splits, slices,
  concatenates and compares them, which acts on the sequence of code units alike.
  Everything the handler obtains from outside its own text (environment variables, the
  linked bucket name, random bytes, the S3 client, the content sniffer, the clock, Node's
  Buffer codecs) is a field of the record \<open>runtime\<close>; a thrown JavaScript value is a
  value of type \<open>thrown\<close>, and a function that may throw returns \<open>thrown + 'a\<close>.
  The calls that can reject are \<^verbatim>\<open>client.send\<close> and \<^verbatim>\<open>fileTypeFromBuffer\<close>;
  \<^verbatim>\<open>new S3Client()\<close>, \<^verbatim>\<open>crypto.randomBytes\<close>, the Buffer codecs and the
  read of \<^verbatim>\<open>Resource.ExistingStorage.name\<close> are taken to return.
\<close>

subsection \<open>JavaScript values and library functions used by the handler\<close>

type_synonym byte = "8 word"

text \<open>
  A thrown value, as the \<^verbatim>\<open>catch (error)\<close> of the handler sees it: an instance of
  \<open>Error\<close> with its \<open>message\<close>, or any other value with its \<open>String(error)\<close>.
\<close>

datatype thrown = Error (message: string) | Thrown (rendering: string)

text \<open>\<^verbatim>\<open>error instanceof Error ? error.message : String(error)\<close>\<close>

fun errorText :: "thrown \<Rightarrow> string" where
  "errorText (Error m) = m"
| "errorText (Thrown s) = s"

text \<open>
  \<^verbatim>\<open>String.prototype.split(separator)\<close> with a string separator and no limit: the
  pieces between the leftmost, non-overlapping occurrences of the separator. An empty
  separator cuts between all code units (the handler never passes one).
\<close>

fun js_split :: "string \<Rightarrow> string \<Rightarrow> string list" where
  "js_split [] s = map (\<lambda>c. [c]) s"
| "js_split (d # ds) [] = [[]]"
| "js_split (d # ds) (c # cs) =
     (if prefix (d # ds) (c # cs) then [] # js_split (d # ds) (drop (length ds) cs)
      else (case js_split (d # ds) cs of [] \<Rightarrow> [[c]] | x # xs \<Rightarrow> (c # x) # xs))"

text \<open>\<^verbatim>\<open>Array.prototype.pop()\<close>, read for its result: \<open>undefined\<close> on an empty array.\<close>

definition pop :: "'a list \<Rightarrow> 'a option" where
  "pop xs = (case rev xs of [] \<Rightarrow> None | x # _ \<Rightarrow> Some x)"

text \<open>\<^verbatim>\<open>array[i]\<close>: \<open>undefined\<close> out of range.\<close>

fun at_index :: "'a list \<Rightarrow> nat \<Rightarrow> 'a option" where
  "at_index [] i = None"
| "at_index (x # xs) 0 = Some x"
| "at_index (x # xs) (Suc i) = at_index xs i"

text \<open>
  \<^verbatim>\<open>s.slice(0, -k)\<close> for \<open>k > 0\<close>: the end index is \<open>max (length s - k) 0\<close>, which is
  what truncating subtraction on \<^typ>\<open>nat\<close> computes.
\<close>

definition slice_to_neg :: "string \<Rightarrow> nat \<Rightarrow> string" where
  "slice_to_neg s k = take (length s - k) s"

text \<open>
  The character of a digit below 16. \<^verbatim>\<open>buffer.toString("hex")\<close> writes two
  lower-case hexadecimal digits per byte.
\<close>

definition digitChar :: "nat \<Rightarrow> char" where
  "digitChar n = ''0123456789abcdef'' ! n"

definition hexByte :: "byte \<Rightarrow> string" where
  "hexByte b = [digitChar (unat b div 16), digitChar (unat b mod 16)]"

definition toString_hex :: "byte list \<Rightarrow> string" where
  "toString_hex bs = concat (map hexByte bs)"

text \<open>\<^verbatim>\<open>Date.now().toString()\<close>: the decimal digits of a non-negative integer.\<close>

fun toString_decimal :: "nat \<Rightarrow> string" where
  "toString_decimal n =
     (if n < 10 then [digitChar n]
      else toString_decimal (n div 10) @ [digitChar (n mod 10)])"

declare toString_decimal.simps [simp del]

subsection \<open>The key allocator (both files): the candidate key\<close>

text \<open>
  \<^verbatim>\<open>filenameWithRandomSuffix\<close>; its first argument is what
  \<^verbatim>\<open>crypto.randomBytes(4)\<close> returned.
\<close>

definition filenameWithRandomSuffix :: "byte \<times> byte \<times> byte \<times> byte \<Rightarrow> string \<Rightarrow> string" where
  "filenameWithRandomSuffix bytes filename =
     (case bytes of (b0, b1, b2, b3) \<Rightarrow>
        let randomString = toString_hex [b0, b1, b2, b3];
            ext = pop (js_split ''.'' filename);
            name = (case ext of
                      Some e \<Rightarrow> slice_to_neg filename (length e + 1)
                    | None \<Rightarrow> filename);
            obfuscated = name @ ''-'' @ randomString
        in (case ext of
              Some e \<Rightarrow> obfuscated @ ''.'' @ e
            | None \<Rightarrow> obfuscated))"

subsection \<open>Data model\<close>

text \<open>The object the handler returns: \<^verbatim>\<open>{ statusCode, body, headers? }\<close>.\<close>

record response =
  statusCode :: nat
  body :: string
  headers :: "(string \<times> string) list option"

text \<open>
  \<^verbatim>\<open>interface RequestEvent\<close>, with the three fields the handler reads. A header
  that is absent or \<open>undefined\<close> is \<open>None\<close>; so is an absent body.
\<close>

record RequestEvent =
  headers :: "string \<rightharpoonup> string"
  body :: "string option"
  isBase64Encoded :: bool

text \<open>The commands passed to \<^verbatim>\<open>client.send\<close>.\<close>

datatype s3_command =
    HeadObjectCommand (Bucket: string) (Key: string)
  | PutObjectCommand (Bucket: string) (Key: string) (Body: "byte list")
      (ContentType: string) (ContentEncoding: string) (ACL: string)

text \<open>What one invocation does to the outside world, in order.\<close>

datatype effect = Send s3_command | ConsoleLog string

text \<open>The result of \<^verbatim>\<open>fileTypeFromBuffer\<close> when it detects a type.\<close>

record FileTypeResult =
  ext :: string
  mime :: string

text \<open>
  The collaborators of one invocation.
  \<^item> \<open>env\<close> is \<^verbatim>\<open>process.env\<close>; \<open>ExistingStorage_name\<close> is
    \<^verbatim>\<open>Resource.ExistingStorage.name\<close>.
  \<^item> \<open>randomBytes n\<close> is the result of the call of \<^verbatim>\<open>crypto.randomBytes(4)\<close> that
    follows \<open>n\<close> earlier ones: four bytes.
  \<^item> \<open>send n c\<close> is the outcome of \<^verbatim>\<open>await client.send(c)\<close> when \<open>n\<close> commands were
    sent before it in this invocation: \<open>None\<close> when the promise resolves, \<open>Some e\<close>
    when it rejects with \<open>e\<close>.
  \<^item> \<open>fileTypeFromBuffer\<close> is the sniffer: a detected type, \<open>undefined\<close>, or a rejection.
  \<^item> \<open>dateNow\<close> is \<^verbatim>\<open>Date.now()\<close>.
  \<^item> \<open>utf8Encode\<close>, \<open>base64Encode\<close> and \<open>base64Decode\<close> are
    \<^verbatim>\<open>Buffer.from(s, "utf-8")\<close>, \<^verbatim>\<open>buf.toString("base64")\<close> and
    \<^verbatim>\<open>Buffer.from(s, "base64")\<close>.
  \<^item> \<open>typeErrorMessage\<close> is the message of the \<open>TypeError\<close> the engine throws when a
    method is called on \<open>undefined\<close>.
\<close>

record runtime =
  env :: "string \<rightharpoonup> string"
  ExistingStorage_name :: string
  randomBytes :: "nat \<Rightarrow> byte \<times> byte \<times> byte \<times> byte"
  send :: "nat \<Rightarrow> s3_command \<Rightarrow> thrown option"
  fileTypeFromBuffer :: "byte list \<Rightarrow> thrown + FileTypeResult option"
  dateNow :: nat
  utf8Encode :: "string \<Rightarrow> byte list"
  base64Encode :: "byte list \<Rightarrow> string"
  base64Decode :: "string \<Rightarrow> byte list"
  typeErrorMessage :: string

subsection \<open>Constants of part_001\<close>

definition ALLOWED_MIME_TYPES :: "string set" where
  "ALLOWED_MIME_TYPES =
     {''application/pdf'', ''audio/aac'', ''audio/mp4'', ''audio/mpeg'', ''audio/ogg'',
      ''audio/webm'', ''image/apng'', ''image/gif'', ''image/jpeg'', ''image/png'',
      ''image/webp'', ''text/plain'', ''video/mp4'', ''video/ogg'', ''video/webm''}"

definition MAX_FILE_SIZE :: nat where
  "MAX_FILE_SIZE = 50 * 1024 * 1024"

subsection \<open>The key allocator (both files): probing the bucket\<close>

text \<open>
  \<^verbatim>\<open>uniqueFilenameForBucket(filename, bucketName, attemptsRemaining)\<close>. The argument
  \<open>n\<close> counts the random draws and the commands sent before the call (one of each per
  attempt). The result is the value of the promise (\<open>Inl\<close> a rejection) and the commands
  sent. The recursive call is awaited inside the \<^verbatim>\<open>try\<close> block, so the bare
  \<^verbatim>\<open>catch\<close> receives its rejection as well as the rejection of the probe, and answers
  both with \<open>newFilename\<close>. \<open>attemptsRemaining\<close> is a natural number: the handler passes
  the default 3 and the function counts it down by one.
\<close>

fun uniqueFilenameForBucket ::
  "runtime \<Rightarrow> nat \<Rightarrow> string \<Rightarrow> string \<Rightarrow> nat \<Rightarrow> (thrown + string) \<times> effect list" where
  "uniqueFilenameForBucket rt n filename bucketName 0 =
     (Inl (Error ''Could not generate a unique filename''), [])"
| "uniqueFilenameForBucket rt n filename bucketName (Suc attemptsRemaining) =
     (let newFilename = filenameWithRandomSuffix (randomBytes rt n) filename;
          command = HeadObjectCommand bucketName newFilename
      in (case send rt n command of
            Some e \<Rightarrow> (Inr newFilename, [Send command])
          | None \<Rightarrow>
              (case uniqueFilenameForBucket rt (Suc n) filename bucketName attemptsRemaining of
                 (Inl e, fx) \<Rightarrow> (Inr newFilename, Send command # fx)
               | (Inr found, fx) \<Rightarrow> (Inr found, Send command # fx))))"

subsection \<open>The handler of part_001\<close>

text \<open>Line 121: the decoded body.\<close>

definition decodeBody :: "runtime \<Rightarrow> RequestEvent \<Rightarrow> string \<Rightarrow> byte list" where
  "decodeBody rt event b =
     base64Decode rt (if isBase64Encoded event then b else base64Encode rt (utf8Encode rt b))"

text \<open>Line 129: \<^verbatim>\<open>contentType?.split("/")[1]?.split("+")[0] ?? "bin"\<close>.\<close>

definition extensionOf :: "string option \<Rightarrow> string" where
  "extensionOf contentType =
     (case contentType of
        None \<Rightarrow> ''bin''
      | Some ct \<Rightarrow>
          (case at_index (js_split ''/'' ct) 1 of
             None \<Rightarrow> ''bin''
           | Some subtype \<Rightarrow>
               (case at_index (js_split ''+'' subtype) 0 of
                  None \<Rightarrow> ''bin''
                | Some x \<Rightarrow> x)))"

text \<open>Lines 128 to 139: the resolved content type and extension.\<close>

definition resolveContentType ::
  "runtime \<Rightarrow> string option \<Rightarrow> byte list \<Rightarrow> thrown + string \<times> string" where
  "resolveContentType rt contentType buffer =
     (if contentType = None \<or> contentType = Some ''application/octet-stream''
         \<or> contentType = Some ''application/x-www-form-urlencoded''
      then (case fileTypeFromBuffer rt buffer of
              Inl e \<Rightarrow> Inl e
            | Inr None \<Rightarrow> Inr (''application/octet-stream'', ''bin'')
            | Inr (Some detectedType) \<Rightarrow> Inr (mime detectedType, ext detectedType))
      else (case contentType of
              Some ct \<Rightarrow> Inr (ct, extensionOf contentType)
            | None \<Rightarrow> Inr (''application/octet-stream'', ''bin'')))"

text \<open>
  Lines 142 to 144 (and 93 to 95 of index.ts, with the fallback \<open>unknown\<close>): the header
  is tested for truthiness, so an empty header counts as none; element 1 of the split is
  \<open>undefined\<close> when the header lacks \<^verbatim>\<open>filename="\<close>, and calling \<open>split\<close> on it
  throws a \<open>TypeError\<close>. Element 0 of the second split always exists
  (\<open>js_split_nonempty\<close> below), so the inner \<open>None\<close> case is never taken.
\<close>

definition resolveFilename :: "runtime \<Rightarrow> string option \<Rightarrow> string \<Rightarrow> thrown + string" where
  "resolveFilename rt contentDisposition fallback =
     (case contentDisposition of
        None \<Rightarrow> Inr fallback
      | Some cd \<Rightarrow>
          if cd = [] then Inr fallback
          else (case at_index (js_split ''filename=\"'' cd) 1 of
                  None \<Rightarrow> Inl (Error (typeErrorMessage rt))
                | Some rest \<Rightarrow>
                    (case at_index (js_split ''\"'' rest) 0 of
                       None \<Rightarrow> Inl (Error (typeErrorMessage rt))
                     | Some name \<Rightarrow> Inr name)))"

text \<open>The \<^verbatim>\<open>file\<close> object built by the handler.\<close>

record InboundFile =
  filename :: string
  contentType :: string
  content :: "byte list"
  encoding :: string

text \<open>Lines 127 to 152: the \<open>file\<close> object.\<close>

definition resolveFile :: "runtime \<Rightarrow> RequestEvent \<Rightarrow> byte list \<Rightarrow> thrown + InboundFile" where
  "resolveFile rt event buffer =
     (case resolveContentType rt (headers event ''content-type'') buffer of
        Inl e \<Rightarrow> Inl e
      | Inr (ct, extension) \<Rightarrow>
          (case resolveFilename rt (headers event ''content-disposition'')
                  (''upload-'' @ toString_decimal (dateNow rt) @ ''.'' @ extension) of
             Inl e \<Rightarrow> Inl e
           | Inr name \<Rightarrow>
               Inr \<lparr>filename = name, contentType = ct, content = buffer,
                    encoding = ''utf-8''\<rparr>))"

text \<open>Line 165: \<^verbatim>\<open>(process.env.USERNAME_ALLOW_LIST ?? "").split(",")\<close>.\<close>

definition allowedUsernames :: "runtime \<Rightarrow> string list" where
  "allowedUsernames rt =
     js_split '','' (case env rt ''USERNAME_ALLOW_LIST'' of None \<Rightarrow> [] | Some v \<Rightarrow> v)"

text \<open>Lines 200 to 204: the public URL of a stored key.\<close>

definition publicUrl :: "runtime \<Rightarrow> string \<Rightarrow> string" where
  "publicUrl rt newFilename =
     (let domain = (case env rt ''CDN_DOMAIN'' of
                      None \<Rightarrow> ExistingStorage_name rt @ ''.s3.amazonaws.com''
                    | Some d \<Rightarrow>
                        if d \<noteq> [] then d
                        else ExistingStorage_name rt @ ''.s3.amazonaws.com'')
      in ''https://'' @ domain @ ''/'' @ newFilename)"

text \<open>Lines 212 to 217: the response of the \<^verbatim>\<open>catch\<close> block.\<close>

definition applicationError :: "thrown \<Rightarrow> response" where
  "applicationError e =
     \<lparr>statusCode = 500, body = ''ERR: Application error: '' @ errorText e, headers = None\<rparr>"

text \<open>
  Lines 181 to 211: allocation, log line, write and the success response with the given
  status code (201 in part_001, 200 in index.ts; the lines are otherwise the same).
\<close>

definition storeFile :: "runtime \<Rightarrow> nat \<Rightarrow> InboundFile \<Rightarrow> response \<times> effect list" where
  "storeFile rt success file =
     (case uniqueFilenameForBucket rt 0 (filename file) (ExistingStorage_name rt) 3 of
        (Inl e, fx) \<Rightarrow> (applicationError e, fx)
      | (Inr newFilename, fx) \<Rightarrow>
          (let logged = ConsoleLog (''Uploading '' @ filename file @ '' to ''
                          @ ExistingStorage_name rt @ '' as '' @ newFilename @ ''...'');
               command = PutObjectCommand (ExistingStorage_name rt) newFilename
                          (content file) (contentType file) (encoding file) ''public-read''
           in (case send rt (length fx) command of
                 Some e \<Rightarrow> (applicationError e, fx @ [logged, Send command])
               | None \<Rightarrow>
                   (\<lparr>statusCode = success,
                     body = ''SUCCESS: '' @ publicUrl rt newFilename,
                     headers = Some [(''location'', publicUrl rt newFilename)]\<rparr>,
                    fx @ [logged, Send command]))))"

text \<open>\<^verbatim>\<open>upload\<close> of part_001: the response and what was done to the outside world.\<close>

definition upload :: "runtime \<Rightarrow> RequestEvent \<Rightarrow> response \<times> effect list" where
  "upload rt event =
     (case body event of
        None \<Rightarrow> (\<lparr>statusCode = 400, body = ''ERR: Missing body'', headers = None\<rparr>, [])
      | Some b \<Rightarrow>
          (let buffer = decodeBody rt event b
           in if length buffer > MAX_FILE_SIZE
              then (\<lparr>statusCode = 413, body = ''ERR: File too large'', headers = None\<rparr>, [])
              else (case resolveFile rt event buffer of
                      Inl e \<Rightarrow> (applicationError e, [])
                    | Inr file \<Rightarrow>
                        (case headers event ''soju-username'' of
                           None \<Rightarrow>
                             (\<lparr>statusCode = 400, body = ''ERR: Missing `username`'',
                               headers = None\<rparr>, [])
                         | Some username \<Rightarrow>
                             if username \<notin> set (allowedUsernames rt)
                             then (\<lparr>statusCode = 403, body = ''ERR: Invalid username'',
                                    headers = None\<rparr>, [])
                             else if contentType file \<notin> ALLOWED_MIME_TYPES
                             then (\<lparr>statusCode = 400,
                                    body = ''ERR: Content type '' @ contentType file
                                             @ '' is not allowed'',
                                    headers = None\<rparr>, [])
                             else storeFile rt 201 file))))"

subsection \<open>The handler of index.ts\<close>

text \<open>Lines 90 to 104: the \<open>file\<close> object, \<open>undefined\<close> when the body is falsy.\<close>

definition resolveFile_index ::
  "runtime \<Rightarrow> RequestEvent \<Rightarrow> thrown + InboundFile option" where
  "resolveFile_index rt event =
     (case body event of
        None \<Rightarrow> Inr None
      | Some b \<Rightarrow>
          if b = [] then Inr None
          else (case resolveFilename rt (headers event ''content-disposition'') ''unknown'' of
                  Inl e \<Rightarrow> Inl e
                | Inr name \<Rightarrow>
                    Inr (Some \<lparr>filename = name,
                               contentType = (case headers event ''content-type'' of
                                                None \<Rightarrow> ''application/octet-stream''
                                              | Some ct \<Rightarrow> ct),
                               content = decodeBody rt event b,
                               encoding = ''utf-8''\<rparr>)))"

text \<open>\<^verbatim>\<open>upload\<close> of index.ts.\<close>

definition upload_index :: "runtime \<Rightarrow> RequestEvent \<Rightarrow> response \<times> effect list" where
  "upload_index rt event =
     (case resolveFile_index rt event of
        Inl e \<Rightarrow> (applicationError e, [])
      | Inr file \<Rightarrow>
          (case headers event ''soju-username'' of
             None \<Rightarrow>
               (\<lparr>statusCode = 400, body = ''ERR: Missing `username`'', headers = None\<rparr>, [])
           | Some username \<Rightarrow>
               (case file of
                  None \<Rightarrow>
                    (\<lparr>statusCode = 400, body = ''ERR: Missing `file`'', headers = None\<rparr>, [])
                | Some f \<Rightarrow>
                    if username \<notin> set (allowedUsernames rt)
                    then (\<lparr>statusCode = 403, body = ''ERR: Invalid username'',
                           headers = None\<rparr>, [])
                    else if \<not> prefix ''image/'' (contentType f)
                    then (\<lparr>statusCode = 400, body = ''ERR: Invalid file type'',
                           headers = None\<rparr>, [])
                    else storeFile rt 200 f)))"

subsection \<open>The allow-list in the spec's words\<close>

text \<open>
  The spec describes \<open>USERNAME_ALLOW_LIST\<close> as comma-separated usernames. This is that
  reading, to be compared with what \<open>allowedUsernames\<close> computes from the variable: the
  usernames joined by commas.
\<close>

fun comma_separated :: "string list \<Rightarrow> string" where
  "comma_separated [] = []"
| "comma_separated [u] = u"
| "comma_separated (u # v # vs) = u @ '','' @ comma_separated (v # vs)"

subsection \<open>A concrete runtime and request\<close>

text \<open>
  A runtime for evaluating the handler on concrete requests: the allow-list names alice
  and bob, every existence probe rejects with \<open>NotFound\<close>, the write succeeds, and the
  sniffer knows the PNG signature. The codec keeps one character per byte (exact for
  ASCII text), so that decoding undoes encoding as Node's base64 codec does.
\<close>

definition demo_runtime :: runtime where
  "demo_runtime =
     \<lparr>env = [''USERNAME_ALLOW_LIST'' \<mapsto> ''alice,bob''],
      ExistingStorage_name = ''uploads'',
      randomBytes = (\<lambda>n. (0xde, 0xad, 0xbe, of_nat n)),
      send = (\<lambda>n c. case c of
                       HeadObjectCommand b k \<Rightarrow> Some (Error ''NotFound'')
                     | PutObjectCommand b k d t e a \<Rightarrow> None),
      fileTypeFromBuffer =
        (\<lambda>b. if take 4 b = [0x89, 0x50, 0x4e, 0x47]
             then Inr (Some \<lparr>ext = ''png'', mime = ''image/png''\<rparr>)
             else Inr None),
      dateNow = 1700000000000,
      utf8Encode = map of_char,
      base64Encode = map (\<lambda>b. char_of (unat b)),
      base64Decode = map of_char,
      typeErrorMessage = ''Cannot read properties of undefined (reading 'split')''\<rparr>"

text \<open>A well-formed upload by alice: a JPEG named \<open>example.jpg\<close>.\<close>

definition demo_event :: RequestEvent where
  "demo_event =
     \<lparr>headers = [''soju-username'' \<mapsto> ''alice'', ''content-type'' \<mapsto> ''image/jpeg'',
                 ''content-disposition'' \<mapsto> ''attachment; filename=\"example.jpg\"''],
      body = Some ''abc'', isBase64Encoded = False\<rparr>"

text \<open>The same runtime with a bucket that rejects every write.\<close>

definition failing_put_runtime :: runtime where
  "failing_put_runtime =
     demo_runtime\<lparr>send := (\<lambda>n c. case c of
                       HeadObjectCommand b k \<Rightarrow> Some (Error ''NotFound'')
                     | PutObjectCommand b k d t e a \<Rightarrow> Some (Error ''SlowDown''))\<rparr>"

text \<open>The same runtime with \<open>CDN_DOMAIN\<close> set.\<close>

definition cdn_runtime :: runtime where
  "cdn_runtime = demo_runtime\<lparr>env := (env demo_runtime)(''CDN_DOMAIN'' \<mapsto> ''cdn.example.org'')\<rparr>"

text \<open>
  Base64 text as Node's \<^verbatim>\<open>Buffer.from(s, "base64")\<close> reads it: decoding stops at the
  first \<open>=\<close>, characters outside the two alphabets are skipped, four characters give
  three bytes and a shorter last group gives the bytes it fully determines.
\<close>

definition base64Value :: "char \<Rightarrow> nat option" where
  "base64Value c =
     (let n = (of_char c :: nat)
      in if 65 \<le> n \<and> n \<le> 90 then Some (n - 65)
         else if 97 \<le> n \<and> n \<le> 122 then Some (n - 71)
         else if 48 \<le> n \<and> n \<le> 57 then Some (n + 4)
         else if c = CHR ''+'' \<or> c = CHR ''-'' then Some 62
         else if c = CHR ''/'' \<or> c = CHR ''_'' then Some 63
         else None)"

fun base64Groups :: "nat list \<Rightarrow> byte list" where
  "base64Groups (a # b # c # d # rest) =
     [of_nat (a * 4 + b div 16), of_nat ((b mod 16) * 16 + c div 4), of_nat ((c mod 4) * 64 + d)]
       @ base64Groups rest"
| "base64Groups [a, b, c] = [of_nat (a * 4 + b div 16), of_nat ((b mod 16) * 16 + c div 4)]"
| "base64Groups [a, b] = [of_nat (a * 4 + b div 16)]"
| "base64Groups [a] = []"
| "base64Groups [] = []"

definition node_base64Decode :: "string \<Rightarrow> byte list" where
  "node_base64Decode s =
     base64Groups (List.map_filter base64Value (takeWhile (\<lambda>c. c \<noteq> CHR ''='') s))"

text \<open>
  The concrete runtime with that decoder and a sniffer that knows the PNG and the ZIP
  signatures.
\<close>

definition sniffing_runtime :: runtime where
  "sniffing_runtime =
     demo_runtime\<lparr>
       fileTypeFromBuffer :=
         (\<lambda>b. if take 4 b = [0x89, 0x50, 0x4e, 0x47]
              then Inr (Some \<lparr>ext = ''png'', mime = ''image/png''\<rparr>)
              else if take 4 b = [0x50, 0x4b, 0x03, 0x04]
              then Inr (Some \<lparr>ext = ''zip'', mime = ''application/zip''\<rparr>)
              else Inr None),
       base64Decode := node_base64Decode\<rparr>"

text \<open>
  Uploads by alice declared as \<open>application/octet-stream\<close>, with a base64 body: the
  eight bytes of the PNG signature, the four bytes of the ZIP signature, and the text
  \<open>abc\<close>; and the first of them sent by carol, who is not in the allow-list.
\<close>

definition png_request :: RequestEvent where
  "png_request =
     \<lparr>headers = [''soju-username'' \<mapsto> ''alice'',
                 ''content-type'' \<mapsto> ''application/octet-stream'',
                 ''content-disposition'' \<mapsto> ''attachment; filename=\"shot.png\"''],
      body = Some ''iVBORw0KGgo='',
      isBase64Encoded = True\<rparr>"

definition zip_request :: RequestEvent where
  "zip_request = png_request\<lparr>body := Some ''UEsDBA==''\<rparr>"

definition text_request :: RequestEvent where
  "text_request = png_request\<lparr>body := Some ''YWJj''\<rparr>"

definition carol_png_request :: RequestEvent where
  "carol_png_request =
     png_request\<lparr>headers := (headers png_request)(''soju-username'' \<mapsto> ''carol'')\<rparr>"

text \<open>The same runtime with a bucket in which every probed key exists.\<close>

definition occupied_runtime :: runtime where
  "occupied_runtime = demo_runtime\<lparr>send := (\<lambda>n c. None)\<rparr>"


section \<open>Properties\<close>

subsection \<open>Splitting strings\<close>

lemma js_split_nonempty: "js_split (d # ds) s \<noteq> []"
  by (cases s) (simp_all split: list.split)

text \<open>A string without the separator is returned whole.\<close>

lemma js_split_no_occurrence:
  "\<not> sublist (d # ds) s \<Longrightarrow> js_split (d # ds) s = [s]"
proof (induction s)
  case Nil
  then show ?case by simp
next
  case (Cons c cs)
  have np: "\<not> prefix (d # ds) (c # cs)"
    using Cons.prems prefix_imp_sublist by blast
  have "\<not> sublist (d # ds) cs"
    using Cons.prems by (simp add: sublist_Cons_right)
  then have "js_split (d # ds) cs = [cs]" by (rule Cons.IH)
  with np show ?case by (simp only: js_split.simps if_False list.case)
qed

lemma js_split_char_absent: "c \<notin> set s \<Longrightarrow> js_split [c] s = [s]"
proof (induction s)
  case Nil
  then show ?case by simp
next
  case (Cons x s)
  then have "x \<noteq> c" and "js_split [c] s = [s]" by auto
  then show ?case by simp
qed

text \<open>The last piece is what follows the last separator character.\<close>

lemma js_split_last_piece:
  "c \<notin> set e \<Longrightarrow> \<exists>ys. js_split [c] (stem @ c # e) = ys @ [e] \<and> ys \<noteq> []"
proof (induction stem)
  case Nil
  then have "js_split [c] (c # e) = [[], e]" by (simp add: js_split_char_absent)
  then show ?case by simp
next
  case (Cons x stem)
  then obtain ys where ys: "js_split [c] (stem @ c # e) = ys @ [e]" "ys \<noteq> []" by blast
  then obtain y ys' where y: "ys = y # ys'" by (cases ys) auto
  show ?case
  proof (cases "x = c")
    case True
    with ys have "js_split [c] ((x # stem) @ c # e) = ([] # ys) @ [e]" by simp
    then show ?thesis by blast
  next
    case False
    with ys y have "js_split [c] ((x # stem) @ c # e) = ((x # y) # ys') @ [e]" by simp
    then show ?thesis by blast
  qed
qed

lemma pop_snoc: "pop (ys @ [e]) = Some e"
  by (simp add: pop_def)

subsection \<open>The random suffix\<close>

lemma digitChar_range: "n < 16 \<Longrightarrow> digitChar n \<in> set ''0123456789abcdef''"
  unfolding digitChar_def by (rule nth_mem) simp

lemma hexByte_chars: "set (hexByte b) \<subseteq> set ''0123456789abcdef''"
proof -
  have "unat b < 256" using unsigned_less [of b] by simp
  then have "unat b div 16 < 16" by simp
  moreover have "unat b mod 16 < 16" by simp
  ultimately show ?thesis
    unfolding hexByte_def using digitChar_range by auto
qed

text \<open>Four random bytes give eight characters, each in \<open>[0-9a-f]\<close>.\<close>

lemma toString_hex_format:
  "length (toString_hex [b0, b1, b2, b3]) = 8 \<and>
   set (toString_hex [b0, b1, b2, b3]) \<subseteq> set ''0123456789abcdef''"
  using hexByte_chars [of b0] hexByte_chars [of b1] hexByte_chars [of b2] hexByte_chars [of b3]
  by (simp add: toString_hex_def hexByte_def)

subsection \<open>The candidate key\<close>

text \<open>
  A filename with a dot: the suffix goes between the part before the last dot and the
  part after it.
\<close>

lemma filenameWithRandomSuffix_with_dot:
  assumes "CHR ''.'' \<notin> set e"
  shows "filenameWithRandomSuffix (b0, b1, b2, b3) (stem @ ''.'' @ e) =
           stem @ ''-'' @ toString_hex [b0, b1, b2, b3] @ ''.'' @ e"
proof -
  obtain ys where "js_split ''.'' (stem @ CHR ''.'' # e) = ys @ [e]"
    using js_split_last_piece [OF assms] by blast
  then show ?thesis
    by (simp add: filenameWithRandomSuffix_def pop_snoc slice_to_neg_def)
qed

text \<open>
  A filename without a dot: \<open>split\<close> returns the whole filename as its only piece, so
  \<open>ext\<close> is the filename, never \<open>undefined\<close>; the slice leaves an empty \<open>name\<close>,
  and the filename comes back as the extension.
\<close>

lemma filenameWithRandomSuffix_without_dot:
  assumes "CHR ''.'' \<notin> set f"
  shows "filenameWithRandomSuffix (b0, b1, b2, b3) f =
           ''-'' @ toString_hex [b0, b1, b2, b3] @ ''.'' @ f"
  using js_split_char_absent [OF assms]
  by (simp add: filenameWithRandomSuffix_def pop_def slice_to_neg_def)

subsection \<open>The allocator\<close>

text \<open>One attempt whose probe rejects, with whatever error: the candidate is returned.\<close>

lemma uniqueFilenameForBucket_free:
  assumes "send rt n (HeadObjectCommand b (filenameWithRandomSuffix (randomBytes rt n) f)) = Some e"
  shows "uniqueFilenameForBucket rt n f b (Suc a) =
           (Inr (filenameWithRandomSuffix (randomBytes rt n) f),
            [Send (HeadObjectCommand b (filenameWithRandomSuffix (randomBytes rt n) f))])"
  using assms by (simp add: Let_def)

text \<open>
  One attempt whose probe resolves: the result of the next attempt, and the candidate of
  this one when the next attempt rejects.
\<close>

lemma uniqueFilenameForBucket_occupied:
  assumes "send rt n (HeadObjectCommand b (filenameWithRandomSuffix (randomBytes rt n) f)) = None"
  shows "uniqueFilenameForBucket rt n f b (Suc a) =
           (Inr (case fst (uniqueFilenameForBucket rt (Suc n) f b a) of
                   Inl e \<Rightarrow> filenameWithRandomSuffix (randomBytes rt n) f
                 | Inr found \<Rightarrow> found),
            Send (HeadObjectCommand b (filenameWithRandomSuffix (randomBytes rt n) f))
              # snd (uniqueFilenameForBucket rt (Suc n) f b a))"
proof (cases "uniqueFilenameForBucket rt (Suc n) f b a")
  case (Pair r fx)
  with assms show ?thesis by (cases r) (simp_all add: Let_def)
qed

text \<open>With at least one attempt left the allocator always returns a key.\<close>

lemma uniqueFilenameForBucket_never_rejects:
  "\<exists>k. fst (uniqueFilenameForBucket rt n f b (Suc a)) = Inr k"
proof (cases "send rt n (HeadObjectCommand b (filenameWithRandomSuffix (randomBytes rt n) f))")
  case None
  then show ?thesis by (simp only: uniqueFilenameForBucket_occupied fst_conv) blast
next
  case (Some e)
  then show ?thesis by (simp only: uniqueFilenameForBucket_free fst_conv) blast
qed

text \<open>The allocator sends existence probes only, and logs nothing.\<close>

lemma uniqueFilenameForBucket_only_probes:
  "Send c \<in> set (snd (uniqueFilenameForBucket rt n f b a)) \<Longrightarrow> \<exists>k. c = HeadObjectCommand b k"
proof (induction a arbitrary: n)
  case 0
  then show ?case by simp
next
  case (Suc a)
  show ?case
  proof (cases "send rt n (HeadObjectCommand b (filenameWithRandomSuffix (randomBytes rt n) f))")
    case (Some e)
    with Suc.prems show ?thesis
      by (simp only: uniqueFilenameForBucket_free snd_conv) simp
  next
    case None
    with Suc.prems have
      "Send c \<in> set (Send (HeadObjectCommand b (filenameWithRandomSuffix (randomBytes rt n) f))
              # snd (uniqueFilenameForBucket rt (Suc n) f b a))"
      by (simp only: uniqueFilenameForBucket_occupied snd_conv)
    then show ?thesis using Suc.IH [of "Suc n"] by auto
  qed
qed

lemma uniqueFilenameForBucket_effects:
  "x \<in> set (snd (uniqueFilenameForBucket rt n f b a)) \<Longrightarrow> \<exists>k. x = Send (HeadObjectCommand b k)"
proof (induction a arbitrary: n)
  case 0
  then show ?case by simp
next
  case (Suc a)
  show ?case
  proof (cases "send rt n (HeadObjectCommand b (filenameWithRandomSuffix (randomBytes rt n) f))")
    case (Some e)
    with Suc.prems show ?thesis
      by (simp only: uniqueFilenameForBucket_free snd_conv) simp
  next
    case None
    with Suc.prems have
      "x \<in> set (Send (HeadObjectCommand b (filenameWithRandomSuffix (randomBytes rt n) f))
              # snd (uniqueFilenameForBucket rt (Suc n) f b a))"
      by (simp only: uniqueFilenameForBucket_occupied snd_conv)
    then show ?thesis using Suc.IH [of "Suc n"] by auto
  qed
qed

subsection \<open>Evaluating the handler on concrete requests\<close>

lemmas handler_defs =
  upload_def upload_index_def resolveFile_index_def decodeBody_def resolveFile_def
  resolveContentType_def resolveFilename_def extensionOf_def allowedUsernames_def storeFile_def
  publicUrl_def applicationError_def filenameWithRandomSuffix_def pop_def slice_to_neg_def
  toString_hex_def hexByte_def digitChar_def ALLOWED_MIME_TYPES_def MAX_FILE_SIZE_def
  Let_def numeral_3_eq_3

lemma byte_of_char_of_nat: "(of_char (char_of (n :: nat)) :: byte) = of_nat n"
proof -
  have "(of_char (char_of n) :: byte) = of_nat (of_char (char_of n))"
    by (simp only: of_nat_of_char)
  also have "\<dots> = of_nat (n mod 256)" by simp
  also have "\<dots> = of_nat n" by (simp add: word_of_nat_eq_iff take_bit_eq_mod)
  finally show ?thesis .
qed

text \<open>The codec of the concrete runtime decodes what it encoded.\<close>

lemma demo_codec_round_trip:
  "base64Decode demo_runtime (base64Encode demo_runtime bs) = bs"
  by (simp add: demo_runtime_def byte_of_char_of_nat comp_def)

lemma toString_decimal_demo: "toString_decimal 1700000000000 = ''1700000000000''"
  by (simp add: toString_decimal.simps digitChar_def)

lemmas demo_defs = demo_runtime_def demo_event_def byte_of_char_of_nat toString_decimal_demo

subsection \<open>The write stage\<close>

text \<open>The handler asks for three attempts, so allocation always hands it a key.\<close>

lemma uniqueFilenameForBucket_3:
  obtains key fx where "uniqueFilenameForBucket rt 0 f b 3 = (Inr key, fx)"
proof -
  obtain k where "fst (uniqueFilenameForBucket rt 0 f b (Suc (Suc (Suc 0)))) = Inr k"
    using uniqueFilenameForBucket_never_rejects by blast
  then have "uniqueFilenameForBucket rt 0 f b (Suc (Suc (Suc 0)))
               = (Inr k, snd (uniqueFilenameForBucket rt 0 f b (Suc (Suc (Suc 0)))))"
    by (metis prod.collapse)
  then show ?thesis using that by (simp only: numeral_3_eq_3)
qed

text \<open>What the write stage does once the key is known.\<close>

lemma storeFile_allocated:
  assumes "uniqueFilenameForBucket rt 0 (filename file) (ExistingStorage_name rt) 3 = (Inr key, fx)"
  shows "storeFile rt success file =
     (case send rt (length fx)
             (PutObjectCommand (ExistingStorage_name rt) key (content file) (contentType file)
                (encoding file) ''public-read'') of
        Some e \<Rightarrow> applicationError e
      | None \<Rightarrow> \<lparr>statusCode = success, body = ''SUCCESS: '' @ publicUrl rt key,
                  headers = Some [(''location'', publicUrl rt key)]\<rparr>,
      fx @ [ConsoleLog (''Uploading '' @ filename file @ '' to '' @ ExistingStorage_name rt
                          @ '' as '' @ key @ ''...''),
            Send (PutObjectCommand (ExistingStorage_name rt) key (content file)
                    (contentType file) (encoding file) ''public-read'')])"
  using assms by (simp add: storeFile_def Let_def split: option.split)

lemma storeFile_status:
  "statusCode (fst (storeFile rt success file)) = success \<or>
   statusCode (fst (storeFile rt success file)) = 500"
proof -
  obtain key fx where
    "uniqueFilenameForBucket rt 0 (filename file) (ExistingStorage_name rt) 3 = (Inr key, fx)"
    by (rule uniqueFilenameForBucket_3)
  then show ?thesis
    by (simp add: storeFile_allocated applicationError_def split: option.split)
qed

text \<open>A request that passes every gate of part_001 reaches the write stage.\<close>

lemma upload_accepted:
  assumes "body event = Some b"
    and "length (decodeBody rt event b) \<le> MAX_FILE_SIZE"
    and "resolveFile rt event (decodeBody rt event b) = Inr file"
    and "headers event ''soju-username'' = Some u"
    and "u \<in> set (allowedUsernames rt)"
    and "contentType file \<in> ALLOWED_MIME_TYPES"
  shows "upload rt event = storeFile rt 201 file"
  using assms by (simp add: upload_def Let_def)

text \<open>The only write the stage sends is the one built from the file object.\<close>

lemma storeFile_puts:
  assumes "Send (PutObjectCommand bk k d ct e a) \<in> set (snd (storeFile rt success file))"
  shows "bk = ExistingStorage_name rt \<and> d = content file \<and> ct = contentType file
           \<and> e = encoding file \<and> a = ''public-read''"
proof -
  obtain key fx where alloc:
    "uniqueFilenameForBucket rt 0 (filename file) (ExistingStorage_name rt) 3 = (Inr key, fx)"
    by (rule uniqueFilenameForBucket_3)
  have "Send (PutObjectCommand bk k d ct e a) \<notin> set fx"
    using uniqueFilenameForBucket_only_probes [of "PutObjectCommand bk k d ct e a" rt 0
        "filename file" "ExistingStorage_name rt" 3] alloc
    by auto
  with assms alloc show ?thesis
    by (simp add: storeFile_allocated)
qed

lemma storeFile_sends_put:
  "\<exists>k. Send (PutObjectCommand (ExistingStorage_name rt) k (content file) (contentType file)
              (encoding file) ''public-read'') \<in> set (snd (storeFile rt success file))"
proof -
  obtain key fx where
    "uniqueFilenameForBucket rt 0 (filename file) (ExistingStorage_name rt) 3 = (Inr key, fx)"
    by (rule uniqueFilenameForBucket_3)
  then show ?thesis
    by (simp add: storeFile_allocated) blast
qed

text \<open>
  When the stage does not answer with the success response, the write is the last
  command it sent and the bucket rejected that very command.
\<close>

lemma storeFile_rejected_put:
  assumes "statusCode (fst (storeFile rt success g)) \<noteq> success"
    and "Send (PutObjectCommand bk k d ct e a) \<in> set (snd (storeFile rt success g))"
  shows "\<exists>fx l err.
           snd (storeFile rt success g) = fx @ [ConsoleLog l, Send (PutObjectCommand bk k d ct e a)]
         \<and> (\<forall>x \<in> set fx. \<exists>key. x = Send (HeadObjectCommand bk key))
         \<and> send rt (length fx) (PutObjectCommand bk k d ct e a) = Some err
         \<and> fst (storeFile rt success g) =
             \<lparr>statusCode = 500, body = ''ERR: Application error: '' @ errorText err,
              headers = None\<rparr>"
proof -
  obtain key fx where alloc:
    "uniqueFilenameForBucket rt 0 (filename g) (ExistingStorage_name rt) 3 = (Inr key, fx)"
    by (rule uniqueFilenameForBucket_3)
  have probes: "\<exists>key. x = Send (HeadObjectCommand (ExistingStorage_name rt) key)"
    if "x \<in> set fx" for x
  proof -
    from that alloc
    have "x \<in> set (snd (uniqueFilenameForBucket rt 0 (filename g) (ExistingStorage_name rt) 3))"
      by simp
    then show ?thesis by (rule uniqueFilenameForBucket_effects)
  qed
  have nofx: "Send (PutObjectCommand bk k d ct e a) \<notin> set fx"
  proof
    assume "Send (PutObjectCommand bk k d ct e a) \<in> set fx"
    then obtain key' where
      "Send (PutObjectCommand bk k d ct e a) = Send (HeadObjectCommand (ExistingStorage_name rt) key')"
      using probes by blast
    then show False by simp
  qed
  let ?put = "PutObjectCommand (ExistingStorage_name rt) key (content g) (contentType g)
                (encoding g) ''public-read''"
  let ?log = "''Uploading '' @ filename g @ '' to '' @ ExistingStorage_name rt
                          @ '' as '' @ key @ ''...''"
  have fx: "snd (storeFile rt success g) = fx @ [ConsoleLog ?log, Send ?put]"
    using alloc by (simp add: storeFile_allocated)
  from assms(2) nofx have same: "PutObjectCommand bk k d ct e a = ?put"
    unfolding fx by simp
  then have bk: "bk = ExistingStorage_name rt" by simp
  from assms(1) alloc obtain err where err: "send rt (length fx) ?put = Some err"
    by (cases "send rt (length fx) ?put") (simp_all add: storeFile_allocated)
  from alloc err have resp: "fst (storeFile rt success g) =
             \<lparr>statusCode = 500, body = ''ERR: Application error: '' @ errorText err,
              headers = None\<rparr>"
    by (simp add: storeFile_allocated applicationError_def)
  have p1: "snd (storeFile rt success g)
              = fx @ [ConsoleLog ?log, Send (PutObjectCommand bk k d ct e a)]"
    by (simp only: fx same)
  have p2: "\<forall>x \<in> set fx. \<exists>key. x = Send (HeadObjectCommand bk key)"
    using probes by (simp only: bk) blast
  have p3: "send rt (length fx) (PutObjectCommand bk k d ct e a) = Some err"
    by (simp only: same err)
  from p1 p2 p3 resp show ?thesis by (intro exI conjI)
qed

text \<open>
  Either the handler of part_001 answers before it touches the bucket, or every gate
  passed and the write stage runs.
\<close>

lemma upload_cases:
  "(snd (upload rt event) = [] \<and> statusCode (fst (upload rt event)) \<in> {400, 403, 413, 500})
   \<or> (\<exists>b file u. body event = Some b \<and> length (decodeBody rt event b) \<le> MAX_FILE_SIZE
         \<and> resolveFile rt event (decodeBody rt event b) = Inr file
         \<and> headers event ''soju-username'' = Some u \<and> u \<in> set (allowedUsernames rt)
         \<and> contentType file \<in> ALLOWED_MIME_TYPES
         \<and> upload rt event = storeFile rt 201 file)"
  by (simp add: upload_def Let_def applicationError_def split: option.split sum.split)

text \<open>A request that passes every gate of index.ts reaches the write stage.\<close>

lemma upload_index_accepted:
  assumes "resolveFile_index rt event = Inr (Some file)"
    and "headers event ''soju-username'' = Some u"
    and "u \<in> set (allowedUsernames rt)"
    and "prefix ''image/'' (contentType file)"
  shows "upload_index rt event = storeFile rt 200 file"
  using assms by (simp add: upload_index_def)

text \<open>A write sent by the handler of part_001 carries the resolved content type.\<close>

lemma upload_puts:
  assumes "body event = Some b"
    and "Send (PutObjectCommand bk k d ct e a) \<in> set (snd (upload rt event))"
  shows "\<exists>g. resolveFile rt event (decodeBody rt event b) = Inr g \<and> ct = contentType g"
proof -
  from assms(2) have "snd (upload rt event) \<noteq> []" by auto
  with upload_cases [of rt event] assms(1) obtain g where
    g: "resolveFile rt event (decodeBody rt event b) = Inr g"
       "upload rt event = storeFile rt 201 g"
    by auto
  with assms(2) storeFile_puts [of bk k d ct e a rt 201 g] show ?thesis by simp
qed

subsection \<open>The allow-list\<close>

text \<open>
  Splitting the empty default gives one element, the empty string: without an allow-list
  a named caller is rejected and the empty username is let through.
\<close>

lemma allowedUsernames_default:
  assumes "env rt ''USERNAME_ALLOW_LIST'' = None \<or> env rt ''USERNAME_ALLOW_LIST'' = Some []"
  shows "allowedUsernames rt = [[]]"
  using assms by (auto simp: allowedUsernames_def)

text \<open>
  An allow-list written as usernames joined by commas, none of them containing a comma,
  is read back as those usernames.
\<close>

lemma js_split_char_append:
  "c \<notin> set u \<Longrightarrow> js_split [c] (u @ c # rest) = u # js_split [c] rest"
proof (induction u)
  case Nil
  then show ?case by simp
next
  case (Cons x u)
  then have "x \<noteq> c" and "js_split [c] (u @ c # rest) = u # js_split [c] rest" by auto
  then show ?case by simp
qed

lemma js_split_comma_separated:
  "names \<noteq> [] \<Longrightarrow> \<forall>u \<in> set names. CHR '','' \<notin> set u \<Longrightarrow>
     js_split '','' (comma_separated names) = names"
proof (induction names rule: comma_separated.induct)
  case 1
  then show ?case by simp
next
  case (2 u)
  then show ?case by (simp add: js_split_char_absent)
next
  case (3 u v vs)
  then have "js_split '','' (comma_separated (v # vs)) = v # vs" by simp
  moreover have "CHR '','' \<notin> set u" using "3.prems" by simp
  ultimately show ?case by (simp add: js_split_char_append)
qed

lemma allowedUsernames_comma_separated:
  assumes "env rt ''USERNAME_ALLOW_LIST'' = Some (comma_separated names)"
    and "names \<noteq> []" and "\<forall>u \<in> set names. CHR '','' \<notin> set u"
  shows "allowedUsernames rt = names"
  using assms by (simp add: allowedUsernames_def js_split_comma_separated)

lemma upload_default_allow_list_rejects_named:
  assumes "env rt ''USERNAME_ALLOW_LIST'' = None \<or> env rt ''USERNAME_ALLOW_LIST'' = Some []"
    and "body event = Some b"
    and "length (decodeBody rt event b) \<le> MAX_FILE_SIZE"
    and "resolveFile rt event (decodeBody rt event b) = Inr g"
    and "headers event ''soju-username'' = Some u"
    and "u \<noteq> []"
  shows "upload rt event =
           (\<lparr>statusCode = 403, body = ''ERR: Invalid username'', headers = None\<rparr>, [])"
  using assms(2-6) by (simp add: upload_def Let_def allowedUsernames_default [OF assms(1)])

subsection \<open>The identity gate\<close>

text \<open>
  The gate as the code computes it: a missing header is answered with 400, and a username
  outside the split of the variable with 403.
\<close>

lemma upload_identity_check:
  assumes "body event = Some b"
    and "length (decodeBody rt event b) \<le> 50 * 1024 * 1024"
    and "resolveFile rt event (decodeBody rt event b) = Inr file"
  shows "(headers event ''soju-username'' = None \<longrightarrow>
            upload rt event =
              (\<lparr>statusCode = 400, body = ''ERR: Missing `username`'', headers = None\<rparr>, []))
       \<and> (\<forall>u. headers event ''soju-username'' = Some u
               \<and> u \<notin> set (js_split '','' (case env rt ''USERNAME_ALLOW_LIST'' of
                                             None \<Rightarrow> [] | Some v \<Rightarrow> v)) \<longrightarrow>
            upload rt event =
              (\<lparr>statusCode = 403, body = ''ERR: Invalid username'', headers = None\<rparr>, []))"
  using assms by (simp add: upload_def Let_def MAX_FILE_SIZE_def allowedUsernames_def)

text \<open>
  With a non-empty allow-list written as usernames joined by commas, a username that is
  not one of them is answered with 403.
\<close>

lemma upload_rejects_unlisted_username:
  assumes "env rt ''USERNAME_ALLOW_LIST'' = Some (comma_separated names)"
    and "names \<noteq> []"
    and "\<forall>n \<in> set names. CHR '','' \<notin> set n"
    and "body event = Some b"
    and "length (decodeBody rt event b) \<le> MAX_FILE_SIZE"
    and "resolveFile rt event (decodeBody rt event b) = Inr g"
    and "headers event ''soju-username'' = Some u"
    and "u \<notin> set names"
  shows "upload rt event =
           (\<lparr>statusCode = 403, body = ''ERR: Invalid username'', headers = None\<rparr>, [])"
  using assms(4-8)
  by (simp add: upload_def Let_def allowedUsernames_comma_separated [OF assms(1-3)])

subsection \<open>The content-type gate\<close>

text \<open>
  For a request declared as \<open>application/octet-stream\<close> the file object carries what the
  sniffer found, or the fallback when it found nothing.
\<close>

lemma resolveFile_sniffed:
  assumes "headers event ''content-type'' = Some ''application/octet-stream''"
    and "fileTypeFromBuffer rt buffer = Inr (Some t)"
    and "resolveFile rt event buffer = Inr g"
  shows "contentType g = mime t"
  using assms by (auto simp: resolveFile_def resolveContentType_def split: sum.splits)

lemma resolveFile_sniffed_named:
  assumes "headers event ''content-type'' = Some ''application/octet-stream''"
    and "fileTypeFromBuffer rt buffer = Inr (Some t)"
    and "resolveFilename rt (headers event ''content-disposition'')
           (''upload-'' @ toString_decimal (dateNow rt) @ ''.'' @ ext t) = Inr name"
  shows "resolveFile rt event buffer =
           Inr \<lparr>filename = name, contentType = mime t, content = buffer, encoding = ''utf-8''\<rparr>"
  using assms by (simp add: resolveFile_def resolveContentType_def)

lemma resolveFile_unsniffed_named:
  assumes "headers event ''content-type'' = Some ''application/octet-stream''"
    and "fileTypeFromBuffer rt buffer = Inr None"
    and "resolveFilename rt (headers event ''content-disposition'')
           (''upload-'' @ toString_decimal (dateNow rt) @ ''.'' @ ''bin'') = Inr name"
  shows "resolveFile rt event buffer =
           Inr \<lparr>filename = name, contentType = ''application/octet-stream'', content = buffer,
                encoding = ''utf-8''\<rparr>"
  using assms by (simp add: resolveFile_def resolveContentType_def)

text \<open>Past the identity gate, the resolved content type decides.\<close>

lemma upload_type_rejected:
  assumes "body event = Some b"
    and "length (decodeBody rt event b) \<le> 50 * 1024 * 1024"
    and "resolveFile rt event (decodeBody rt event b) = Inr g"
    and "headers event ''soju-username'' = Some u"
    and "u \<in> set (allowedUsernames rt)"
    and "contentType g \<notin> ALLOWED_MIME_TYPES"
  shows "upload rt event =
           (\<lparr>statusCode = 400,
             body = ''ERR: Content type '' @ contentType g @ '' is not allowed'',
             headers = None\<rparr>, [])"
  using assms by (simp add: upload_def Let_def MAX_FILE_SIZE_def)

lemma upload_type_accepted:
  assumes "body event = Some b"
    and "length (decodeBody rt event b) \<le> 50 * 1024 * 1024"
    and "resolveFile rt event (decodeBody rt event b) = Inr g"
    and "headers event ''soju-username'' = Some u"
    and "u \<in> set (allowedUsernames rt)"
    and "contentType g \<in> ALLOWED_MIME_TYPES"
  shows "\<exists>k. Send (PutObjectCommand (ExistingStorage_name rt) k (content g) (contentType g)
              (encoding g) ''public-read'') \<in> set (snd (upload rt event))"
proof -
  have "upload rt event = storeFile rt 201 g"
    using assms by (simp add: upload_accepted MAX_FILE_SIZE_def)
  then show ?thesis using storeFile_sends_put [of rt g 201] by simp
qed

subsection \<open>The sniffing runtime on its requests\<close>

lemmas sniffing_defs = sniffing_runtime_def demo_runtime_def png_request_def zip_request_def
  node_base64Decode_def base64Value_def List.map_filter_simps

lemma png_bytes:
  "decodeBody sniffing_runtime png_request ''iVBORw0KGgo=''
     = [0x89, 0x50, 0x4e, 0x47, 0x0d, 0x0a, 0x1a, 0x0a]"
  by (simp add: decodeBody_def sniffing_defs)

lemma zip_bytes:
  "decodeBody sniffing_runtime zip_request ''UEsDBA=='' = [0x50, 0x4b, 0x03, 0x04]"
  by (simp add: decodeBody_def sniffing_defs)

lemma text_bytes:
  "decodeBody sniffing_runtime text_request ''YWJj'' = [97, 98, 99]"
  by (simp add: decodeBody_def sniffing_defs text_request_def)

lemma carol_png_bytes:
  "decodeBody sniffing_runtime carol_png_request ''iVBORw0KGgo=''
     = [0x89, 0x50, 0x4e, 0x47, 0x0d, 0x0a, 0x1a, 0x0a]"
  by (simp add: decodeBody_def carol_png_request_def sniffing_defs)

lemma sniffing_runtime_png:
  "fileTypeFromBuffer sniffing_runtime [0x89, 0x50, 0x4e, 0x47, 0x0d, 0x0a, 0x1a, 0x0a]
     = Inr (Some \<lparr>ext = ''png'', mime = ''image/png''\<rparr>)"
  by (simp add: sniffing_runtime_def)

lemma sniffing_runtime_zip:
  "fileTypeFromBuffer sniffing_runtime [0x50, 0x4b, 0x03, 0x04]
     = Inr (Some \<lparr>ext = ''zip'', mime = ''application/zip''\<rparr>)"
  by (simp add: sniffing_runtime_def)

lemma sniffing_runtime_text:
  "fileTypeFromBuffer sniffing_runtime [97, 98, 99] = Inr None"
  by (simp add: sniffing_runtime_def)

section \<open>The claims\<close>

subsection \<open>C1: the shape of the allocated key\<close>

text \<open>
  Claim C1: a filename with a dot becomes \<open>stem-suffix.ext\<close>, cut at the last dot, with
  a suffix of eight characters in \<open>[0-9a-f]\<close> (lemmas
  \<open>filenameWithRandomSuffix_with_dot\<close> and \<open>toString_hex_format\<close>), and a filename
  without a dot becomes \<open>filename-suffix\<close>. The code misses the second half: for
  \<open>README\<close> and the random bytes \<open>de ad be ef\<close> it returns \<open>-deadbeef.README\<close>, not
  \<open>README-deadbeef\<close>, because \<open>split(".").pop()\<close> is the whole filename, never
  \<open>undefined\<close>, so the branch written for a missing extension is never taken.
\<close>

theorem filenameWithRandomSuffix_README:
  "filenameWithRandomSuffix (0xde, 0xad, 0xbe, 0xef) ''README'' = ''-deadbeef.README'' \<and>
   filenameWithRandomSuffix (0xde, 0xad, 0xbe, 0xef) ''README'' \<noteq> ''README-deadbeef''"
  by (simp add: handler_defs)

subsection \<open>C2: the success response\<close>

text \<open>
  Claim C2 says that a request that passes every gate, gets a key and is written returns
  status 201. The claim names both handlers, and the one of index.ts returns status 200:
  the well-formed request of alice is stored and answered with 200.
\<close>

theorem upload_index_status_200_counterexample:
  "upload_index demo_runtime demo_event =
     (\<lparr>statusCode = 200,
       body = ''SUCCESS: https://uploads.s3.amazonaws.com/example-deadbe00.jpg'',
       headers = Some [(''location'', ''https://uploads.s3.amazonaws.com/example-deadbe00.jpg'')]\<rparr>,
      [Send (HeadObjectCommand ''uploads'' ''example-deadbe00.jpg''),
       ConsoleLog ''Uploading example.jpg to uploads as example-deadbe00.jpg...'',
       Send (PutObjectCommand ''uploads'' ''example-deadbe00.jpg'' [97, 98, 99]
               ''image/jpeg'' ''utf-8'' ''public-read'')])"
  by (simp add: handler_defs demo_defs)

text \<open>
  Claim C2 as amended: when the request passes every gate of the handler, the allocator
  returns \<open>key\<close> and the write resolves, the response has body \<open>SUCCESS: \<close> followed
  by \<open>https://domain/key\<close> and a \<open>location\<close> header with that same URL, where the
  domain is \<open>CDN_DOMAIN\<close> when it is set and not empty, and the bucket name followed by
  \<open>.s3.amazonaws.com\<close> otherwise; the status code is 201 in part_001 and 200 in
  index.ts.
\<close>

theorem upload_success_response:
  assumes "domain = (case env rt ''CDN_DOMAIN'' of
                       None \<Rightarrow> ExistingStorage_name rt @ ''.s3.amazonaws.com''
                     | Some d \<Rightarrow> if d = [] then ExistingStorage_name rt @ ''.s3.amazonaws.com''
                                else d)"
    and "headers event ''soju-username'' = Some u"
    and "u \<in> set (allowedUsernames rt)"
    and "uniqueFilenameForBucket rt 0 (filename file) (ExistingStorage_name rt) 3 = (Inr key, fx)"
    and "send rt (length fx)
           (PutObjectCommand (ExistingStorage_name rt) key (content file) (contentType file)
              (encoding file) ''public-read'') = None"
  shows "(body event = Some b \<and> length (decodeBody rt event b) \<le> 50 * 1024 * 1024
            \<and> resolveFile rt event (decodeBody rt event b) = Inr file
            \<and> contentType file \<in> ALLOWED_MIME_TYPES \<longrightarrow>
          fst (upload rt event) =
            \<lparr>statusCode = 201, body = ''SUCCESS: '' @ ''https://'' @ domain @ ''/'' @ key,
             headers = Some [(''location'', ''https://'' @ domain @ ''/'' @ key)]\<rparr>)
       \<and> (resolveFile_index rt event = Inr (Some file)
            \<and> prefix ''image/'' (contentType file) \<longrightarrow>
          fst (upload_index rt event) =
            \<lparr>statusCode = 200, body = ''SUCCESS: '' @ ''https://'' @ domain @ ''/'' @ key,
             headers = Some [(''location'', ''https://'' @ domain @ ''/'' @ key)]\<rparr>)"
proof -
  have url: "publicUrl rt key = ''https://'' @ domain @ ''/'' @ key"
    using assms(1) by (simp add: publicUrl_def split: option.split)
  have store: "fst (storeFile rt success file) =
      \<lparr>statusCode = success, body = ''SUCCESS: '' @ ''https://'' @ domain @ ''/'' @ key,
       headers = Some [(''location'', ''https://'' @ domain @ ''/'' @ key)]\<rparr>" for success
    using assms(4,5) url by (simp add: storeFile_allocated)
  show ?thesis
  proof (intro conjI impI)
    assume "body event = Some b \<and> length (decodeBody rt event b) \<le> 50 * 1024 * 1024
            \<and> resolveFile rt event (decodeBody rt event b) = Inr file
            \<and> contentType file \<in> ALLOWED_MIME_TYPES"
    then have "upload rt event = storeFile rt 201 file"
      using assms(2,3) by (simp add: upload_accepted MAX_FILE_SIZE_def)
    then show "fst (upload rt event) =
            \<lparr>statusCode = 201, body = ''SUCCESS: '' @ ''https://'' @ domain @ ''/'' @ key,
             headers = Some [(''location'', ''https://'' @ domain @ ''/'' @ key)]\<rparr>"
      by (simp only: store)
  next
    assume "resolveFile_index rt event = Inr (Some file) \<and> prefix ''image/'' (contentType file)"
    then have "upload_index rt event = storeFile rt 200 file"
      using assms(2,3) by (simp add: upload_index_accepted)
    then show "fst (upload_index rt event) =
            \<lparr>statusCode = 200, body = ''SUCCESS: '' @ ''https://'' @ domain @ ''/'' @ key,
             headers = Some [(''location'', ''https://'' @ domain @ ''/'' @ key)]\<rparr>"
      by (simp only: store)
  qed
qed

theorem upload_success_response_witness:
  "fst (upload cdn_runtime demo_event) =
     \<lparr>statusCode = 201, body = ''SUCCESS: https://cdn.example.org/example-deadbe00.jpg'',
      headers = Some [(''location'', ''https://cdn.example.org/example-deadbe00.jpg'')]\<rparr>
   \<and> fst (upload demo_runtime demo_event) =
     \<lparr>statusCode = 201,
      body = ''SUCCESS: https://uploads.s3.amazonaws.com/example-deadbe00.jpg'',
      headers = Some [(''location'', ''https://uploads.s3.amazonaws.com/example-deadbe00.jpg'')]\<rparr>
   \<and> fst (upload_index demo_runtime demo_event) =
     \<lparr>statusCode = 200,
      body = ''SUCCESS: https://uploads.s3.amazonaws.com/example-deadbe00.jpg'',
      headers = Some [(''location'', ''https://uploads.s3.amazonaws.com/example-deadbe00.jpg'')]\<rparr>"
proof -
  let ?file = "\<lparr>filename = ''example.jpg'', contentType = ''image/jpeg'',
                content = [97, 98, 99], encoding = ''utf-8''\<rparr>"
  let ?key = "''example-deadbe00.jpg''"
  let ?fx = "[Send (HeadObjectCommand ''uploads'' ''example-deadbe00.jpg'')]"
  have c1: "''cdn.example.org'' = (case env cdn_runtime ''CDN_DOMAIN'' of
                       None \<Rightarrow> ExistingStorage_name cdn_runtime @ ''.s3.amazonaws.com''
                     | Some d \<Rightarrow> if d = [] then ExistingStorage_name cdn_runtime @ ''.s3.amazonaws.com''
                                else d)"
    by (simp add: cdn_runtime_def demo_runtime_def)
  have c2: "headers demo_event ''soju-username'' = Some ''alice''"
    by (simp add: demo_event_def)
  have c3: "''alice'' \<in> set (allowedUsernames cdn_runtime)"
    by (simp add: allowedUsernames_def cdn_runtime_def demo_runtime_def)
  have c4: "uniqueFilenameForBucket cdn_runtime 0 (filename ?file)
              (ExistingStorage_name cdn_runtime) 3 = (Inr ?key, ?fx)"
    by (simp add: handler_defs cdn_runtime_def demo_runtime_def)
  have c5: "send cdn_runtime (length ?fx)
           (PutObjectCommand (ExistingStorage_name cdn_runtime) ?key (content ?file)
              (contentType ?file) (encoding ?file) ''public-read'') = None"
    by (simp add: cdn_runtime_def demo_runtime_def)
  have c6: "body demo_event = Some ''abc''
      \<and> length (decodeBody cdn_runtime demo_event ''abc'') \<le> 50 * 1024 * 1024
      \<and> resolveFile cdn_runtime demo_event (decodeBody cdn_runtime demo_event ''abc'') = Inr ?file
      \<and> contentType ?file \<in> ALLOWED_MIME_TYPES"
    by (simp add: handler_defs demo_defs cdn_runtime_def)
  have d1: "''uploads.s3.amazonaws.com'' = (case env demo_runtime ''CDN_DOMAIN'' of
                       None \<Rightarrow> ExistingStorage_name demo_runtime @ ''.s3.amazonaws.com''
                     | Some d \<Rightarrow> if d = [] then ExistingStorage_name demo_runtime @ ''.s3.amazonaws.com''
                                else d)"
    by (simp add: demo_runtime_def)
  have d3: "''alice'' \<in> set (allowedUsernames demo_runtime)"
    by (simp add: allowedUsernames_def demo_runtime_def)
  have d4: "uniqueFilenameForBucket demo_runtime 0 (filename ?file)
              (ExistingStorage_name demo_runtime) 3 = (Inr ?key, ?fx)"
    by (simp add: handler_defs demo_runtime_def)
  have d5: "send demo_runtime (length ?fx)
           (PutObjectCommand (ExistingStorage_name demo_runtime) ?key (content ?file)
              (contentType ?file) (encoding ?file) ''public-read'') = None"
    by (simp add: demo_runtime_def)
  have d6: "body demo_event = Some ''abc''
      \<and> length (decodeBody demo_runtime demo_event ''abc'') \<le> 50 * 1024 * 1024
      \<and> resolveFile demo_runtime demo_event (decodeBody demo_runtime demo_event ''abc'') = Inr ?file
      \<and> contentType ?file \<in> ALLOWED_MIME_TYPES"
    by (simp add: handler_defs demo_defs)
  have d7: "resolveFile_index demo_runtime demo_event = Inr (Some ?file)
      \<and> prefix ''image/'' (contentType ?file)"
    by (simp add: handler_defs demo_defs)
  from upload_success_response [OF c1 c2 c3 c4 c5, of "''abc''"] c6
       upload_success_response [OF d1 c2 d3 d4 d5, of "''abc''"] d6 d7
  show ?thesis by simp
qed

subsection \<open>C3: the sniffed content type\<close>

text \<open>
  Claim C3 says that a request declared as \<open>application/octet-stream\<close> whose body
  sniffs to \<open>image/png\<close> is accepted if and only if \<open>image/png\<close> is in the MIME
  allow-list. The content-type gate comes after the identity gate: the PNG upload sent by
  carol sniffs to \<open>image/png\<close>, which is in \<open>ALLOWED_MIME_TYPES\<close>, and is answered
  with 403, nothing being sent to the bucket.
\<close>

theorem upload_sniffed_png_by_carol_counterexample:
  "headers carol_png_request ''content-type'' = Some ''application/octet-stream''
   \<and> fileTypeFromBuffer sniffing_runtime
        (decodeBody sniffing_runtime carol_png_request ''iVBORw0KGgo='')
       = Inr (Some \<lparr>ext = ''png'', mime = ''image/png''\<rparr>)
   \<and> ''image/png'' \<in> ALLOWED_MIME_TYPES
   \<and> upload sniffing_runtime carol_png_request
       = (\<lparr>statusCode = 403, body = ''ERR: Invalid username'', headers = None\<rparr>, [])"
proof -
  let ?g = "\<lparr>filename = ''shot.png'', contentType = ''image/png'',
             content = [0x89, 0x50, 0x4e, 0x47, 0x0d, 0x0a, 0x1a, 0x0a], encoding = ''utf-8''\<rparr>"
  have ct: "headers carol_png_request ''content-type'' = Some ''application/octet-stream''"
    by (simp add: carol_png_request_def png_request_def)
  have b: "body carol_png_request = Some ''iVBORw0KGgo=''"
    by (simp add: carol_png_request_def png_request_def)
  have sniff: "fileTypeFromBuffer sniffing_runtime
        (decodeBody sniffing_runtime carol_png_request ''iVBORw0KGgo='')
       = Inr (Some \<lparr>ext = ''png'', mime = ''image/png''\<rparr>)"
    by (simp only: carol_png_bytes sniffing_runtime_png)
  have size: "length (decodeBody sniffing_runtime carol_png_request ''iVBORw0KGgo='')
                \<le> 50 * 1024 * 1024"
    by (simp only: carol_png_bytes) simp
  have name: "resolveFilename sniffing_runtime (headers carol_png_request ''content-disposition'')
           (''upload-'' @ toString_decimal (dateNow sniffing_runtime) @ ''.''
              @ ext \<lparr>ext = ''png'', mime = ''image/png''\<rparr>) = Inr ''shot.png''"
    by (simp add: resolveFilename_def carol_png_request_def png_request_def)
  have resolved: "resolveFile sniffing_runtime carol_png_request
           (decodeBody sniffing_runtime carol_png_request ''iVBORw0KGgo='') = Inr ?g"
    using resolveFile_sniffed_named [OF ct sniff name] by (simp add: carol_png_bytes)
  have u: "headers carol_png_request ''soju-username'' = Some ''carol''
      \<and> ''carol'' \<notin> set (js_split '','' (case env sniffing_runtime ''USERNAME_ALLOW_LIST'' of
                                             None \<Rightarrow> [] | Some v \<Rightarrow> v))"
    by (simp add: carol_png_request_def png_request_def sniffing_runtime_def demo_runtime_def)
  from upload_identity_check [OF b size resolved] u
  have "upload sniffing_runtime carol_png_request
       = (\<lparr>statusCode = 403, body = ''ERR: Invalid username'', headers = None\<rparr>, [])"
    by blast
  moreover have "''image/png'' \<in> ALLOWED_MIME_TYPES"
    by (simp add: ALLOWED_MIME_TYPES_def)
  ultimately show ?thesis using ct sniff by (intro conjI)
qed

text \<open>
  Claim C3 as amended: take a request declared as \<open>application/octet-stream\<close> whose
  decoded body is at most 50 MiB. When the body sniffs to a type, every write the handler
  sends carries that type, not \<open>application/octet-stream\<close>; when moreover the filename
  resolves and the username is in the allow-list, the write is sent if and only if the
  sniffed type is in \<open>ALLOWED_MIME_TYPES\<close>, a type outside it is answered with 400
  naming the type, and a body sniffing to \<open>image/png\<close> is written as \<open>image/png\<close>.
  When the sniffer finds nothing, the resolved type is \<open>application/octet-stream\<close>
  with extension \<open>bin\<close>, and such a request, past the other gates, is answered with
  400.
\<close>

theorem upload_sniffed_type_decides:
  assumes "headers event ''content-type'' = Some ''application/octet-stream''"
    and "body event = Some b"
    and "length (decodeBody rt event b) \<le> 50 * 1024 * 1024"
  shows "(\<forall>t. fileTypeFromBuffer rt (decodeBody rt event b) = Inr (Some t) \<longrightarrow>
            (\<forall>bk k d ct e a.
               Send (PutObjectCommand bk k d ct e a) \<in> set (snd (upload rt event)) \<longrightarrow>
               ct = mime t)
          \<and> (\<forall>name u.
               resolveFilename rt (headers event ''content-disposition'')
                 (''upload-'' @ toString_decimal (dateNow rt) @ ''.'' @ ext t) = Inr name
               \<and> headers event ''soju-username'' = Some u \<and> u \<in> set (allowedUsernames rt) \<longrightarrow>
               ((\<exists>k. Send (PutObjectCommand (ExistingStorage_name rt) k (decodeBody rt event b)
                             (mime t) ''utf-8'' ''public-read'')
                       \<in> set (snd (upload rt event)))
                \<longleftrightarrow> mime t \<in> ALLOWED_MIME_TYPES)
             \<and> (mime t \<notin> ALLOWED_MIME_TYPES \<longrightarrow>
                  upload rt event =
                    (\<lparr>statusCode = 400,
                      body = ''ERR: Content type '' @ mime t @ '' is not allowed'',
                      headers = None\<rparr>, []))
             \<and> (mime t = ''image/png'' \<longrightarrow>
                  (\<exists>k. Send (PutObjectCommand (ExistingStorage_name rt) k (decodeBody rt event b)
                             ''image/png'' ''utf-8'' ''public-read'')
                       \<in> set (snd (upload rt event))))))
       \<and> (fileTypeFromBuffer rt (decodeBody rt event b) = Inr None \<longrightarrow>
            resolveContentType rt (headers event ''content-type'') (decodeBody rt event b)
              = Inr (''application/octet-stream'', ''bin'')
          \<and> (\<forall>name u.
               resolveFilename rt (headers event ''content-disposition'')
                 (''upload-'' @ toString_decimal (dateNow rt) @ ''.'' @ ''bin'') = Inr name
               \<and> headers event ''soju-username'' = Some u \<and> u \<in> set (allowedUsernames rt) \<longrightarrow>
               upload rt event =
                 (\<lparr>statusCode = 400,
                   body = ''ERR: Content type application/octet-stream is not allowed'',
                   headers = None\<rparr>, [])))"
proof -
  let ?buf = "decodeBody rt event b"
  have puts: "ct = mime t"
    if "fileTypeFromBuffer rt ?buf = Inr (Some t)"
      and "Send (PutObjectCommand bk k d ct e a) \<in> set (snd (upload rt event))"
    for t bk k d ct e a
  proof -
    from upload_puts [OF assms(2) that(2)] obtain g where
      g: "resolveFile rt event ?buf = Inr g" "ct = contentType g"
      by blast
    from resolveFile_sniffed [OF assms(1) that(1) g(1)] g(2) show ?thesis by simp
  qed
  have accepted: "\<exists>k. Send (PutObjectCommand (ExistingStorage_name rt) k ?buf
                             (mime t) ''utf-8'' ''public-read'')
                       \<in> set (snd (upload rt event))"
    if "fileTypeFromBuffer rt ?buf = Inr (Some t)"
      and "resolveFilename rt (headers event ''content-disposition'')
                 (''upload-'' @ toString_decimal (dateNow rt) @ ''.'' @ ext t) = Inr name
               \<and> headers event ''soju-username'' = Some u \<and> u \<in> set (allowedUsernames rt)"
      and "mime t \<in> ALLOWED_MIME_TYPES"
    for t name u
  proof -
    let ?g = "\<lparr>filename = name, contentType = mime t, content = ?buf, encoding = ''utf-8''\<rparr>"
    have r: "resolveFile rt event ?buf = Inr ?g"
      using that(2) by (simp add: resolveFile_sniffed_named [OF assms(1) that(1)])
    from that(2) have u: "headers event ''soju-username'' = Some u"
      and al: "u \<in> set (allowedUsernames rt)" by simp_all
    from that(3) have m: "contentType ?g \<in> ALLOWED_MIME_TYPES" by simp
    from upload_type_accepted [OF assms(2,3) r u al m] show ?thesis by simp
  qed
  have rejected: "upload rt event =
                    (\<lparr>statusCode = 400,
                      body = ''ERR: Content type '' @ mime t @ '' is not allowed'',
                      headers = None\<rparr>, [])"
    if "fileTypeFromBuffer rt ?buf = Inr (Some t)"
      and "resolveFilename rt (headers event ''content-disposition'')
                 (''upload-'' @ toString_decimal (dateNow rt) @ ''.'' @ ext t) = Inr name
               \<and> headers event ''soju-username'' = Some u \<and> u \<in> set (allowedUsernames rt)"
      and "mime t \<notin> ALLOWED_MIME_TYPES"
    for t name u
  proof -
    let ?g = "\<lparr>filename = name, contentType = mime t, content = ?buf, encoding = ''utf-8''\<rparr>"
    have r: "resolveFile rt event ?buf = Inr ?g"
      using that(2) by (simp add: resolveFile_sniffed_named [OF assms(1) that(1)])
    from that(2) have u: "headers event ''soju-username'' = Some u"
      and al: "u \<in> set (allowedUsernames rt)" by simp_all
    from that(3) have m: "contentType ?g \<notin> ALLOWED_MIME_TYPES" by simp
    from upload_type_rejected [OF assms(2,3) r u al m] show ?thesis by simp
  qed
  have png: "''image/png'' \<in> ALLOWED_MIME_TYPES"
    by (simp add: ALLOWED_MIME_TYPES_def)
  have fallback: "resolveContentType rt (headers event ''content-type'') ?buf
              = Inr (''application/octet-stream'', ''bin'')"
    if "fileTypeFromBuffer rt ?buf = Inr None"
    using that assms(1) by (simp add: resolveContentType_def)
  have octet: "''application/octet-stream'' \<notin> ALLOWED_MIME_TYPES"
    by (simp add: ALLOWED_MIME_TYPES_def)
  have unsniffed: "upload rt event =
                 (\<lparr>statusCode = 400,
                   body = ''ERR: Content type application/octet-stream is not allowed'',
                   headers = None\<rparr>, [])"
    if "fileTypeFromBuffer rt ?buf = Inr None"
      and "resolveFilename rt (headers event ''content-disposition'')
                 (''upload-'' @ toString_decimal (dateNow rt) @ ''.'' @ ''bin'') = Inr name
               \<and> headers event ''soju-username'' = Some u \<and> u \<in> set (allowedUsernames rt)"
    for name u
  proof -
    let ?g = "\<lparr>filename = name, contentType = ''application/octet-stream'', content = ?buf,
               encoding = ''utf-8''\<rparr>"
    have r: "resolveFile rt event ?buf = Inr ?g"
      using that(2) by (simp add: resolveFile_unsniffed_named [OF assms(1) that(1)])
    from that(2) have u: "headers event ''soju-username'' = Some u"
      and al: "u \<in> set (allowedUsernames rt)" by simp_all
    from octet have m: "contentType ?g \<notin> ALLOWED_MIME_TYPES" by simp
    from upload_type_rejected [OF assms(2,3) r u al m] show ?thesis by simp
  qed
  show ?thesis
  proof (intro conjI allI impI)
    fix t bk k d ct e a
    assume "fileTypeFromBuffer rt ?buf = Inr (Some t)"
      and "Send (PutObjectCommand bk k d ct e a) \<in> set (snd (upload rt event))"
    then show "ct = mime t" by (rule puts)
  next
    fix t name u
    assume s: "fileTypeFromBuffer rt ?buf = Inr (Some t)"
      and g: "resolveFilename rt (headers event ''content-disposition'')
                 (''upload-'' @ toString_decimal (dateNow rt) @ ''.'' @ ext t) = Inr name
               \<and> headers event ''soju-username'' = Some u \<and> u \<in> set (allowedUsernames rt)"
    show "(\<exists>k. Send (PutObjectCommand (ExistingStorage_name rt) k ?buf
                             (mime t) ''utf-8'' ''public-read'')
                       \<in> set (snd (upload rt event)))
                \<longleftrightarrow> mime t \<in> ALLOWED_MIME_TYPES"
    proof
      assume "\<exists>k. Send (PutObjectCommand (ExistingStorage_name rt) k ?buf
                             (mime t) ''utf-8'' ''public-read'')
                       \<in> set (snd (upload rt event))"
      then have ne: "snd (upload rt event) \<noteq> []" by auto
      show "mime t \<in> ALLOWED_MIME_TYPES"
      proof (rule ccontr)
        assume "mime t \<notin> ALLOWED_MIME_TYPES"
        from rejected [OF s g this] have "snd (upload rt event) = []" by simp
        with ne show False by simp
      qed
    next
      assume "mime t \<in> ALLOWED_MIME_TYPES"
      with s g show "\<exists>k. Send (PutObjectCommand (ExistingStorage_name rt) k ?buf
                             (mime t) ''utf-8'' ''public-read'')
                       \<in> set (snd (upload rt event))"
        by (rule accepted)
    qed
  next
    fix t name u
    assume "fileTypeFromBuffer rt ?buf = Inr (Some t)"
      and "resolveFilename rt (headers event ''content-disposition'')
                 (''upload-'' @ toString_decimal (dateNow rt) @ ''.'' @ ext t) = Inr name
               \<and> headers event ''soju-username'' = Some u \<and> u \<in> set (allowedUsernames rt)"
      and "mime t \<notin> ALLOWED_MIME_TYPES"
    then show "upload rt event =
                    (\<lparr>statusCode = 400,
                      body = ''ERR: Content type '' @ mime t @ '' is not allowed'',
                      headers = None\<rparr>, [])"
      by (rule rejected)
  next
    fix t name u
    assume s: "fileTypeFromBuffer rt ?buf = Inr (Some t)"
      and g: "resolveFilename rt (headers event ''content-disposition'')
                 (''upload-'' @ toString_decimal (dateNow rt) @ ''.'' @ ext t) = Inr name
               \<and> headers event ''soju-username'' = Some u \<and> u \<in> set (allowedUsernames rt)"
      and m: "mime t = ''image/png''"
    from png m have "mime t \<in> ALLOWED_MIME_TYPES" by simp
    from accepted [OF s g this] m
    show "\<exists>k. Send (PutObjectCommand (ExistingStorage_name rt) k ?buf
                             ''image/png'' ''utf-8'' ''public-read'')
                       \<in> set (snd (upload rt event))"
      by simp
  next
    assume "fileTypeFromBuffer rt ?buf = Inr None"
    then show "resolveContentType rt (headers event ''content-type'') ?buf
              = Inr (''application/octet-stream'', ''bin'')"
      by (rule fallback)
  next
    fix name u
    assume "fileTypeFromBuffer rt ?buf = Inr None"
      and "resolveFilename rt (headers event ''content-disposition'')
                 (''upload-'' @ toString_decimal (dateNow rt) @ ''.'' @ ''bin'') = Inr name
               \<and> headers event ''soju-username'' = Some u \<and> u \<in> set (allowedUsernames rt)"
    then show "upload rt event =
                 (\<lparr>statusCode = 400,
                   body = ''ERR: Content type application/octet-stream is not allowed'',
                   headers = None\<rparr>, [])"
      by (rule unsniffed)
  qed
qed

theorem upload_sniffed_type_decides_witness:
  "(\<exists>k. Send (PutObjectCommand ''uploads'' k [0x89, 0x50, 0x4e, 0x47, 0x0d, 0x0a, 0x1a, 0x0a]
               ''image/png'' ''utf-8'' ''public-read'')
          \<in> set (snd (upload sniffing_runtime png_request)))
   \<and> upload sniffing_runtime zip_request =
       (\<lparr>statusCode = 400, body = ''ERR: Content type application/zip is not allowed'',
         headers = None\<rparr>, [])
   \<and> upload sniffing_runtime text_request =
       (\<lparr>statusCode = 400,
         body = ''ERR: Content type application/octet-stream is not allowed'',
         headers = None\<rparr>, [])"
proof -
  let ?png = "\<lparr>ext = ''png'', mime = ''image/png''\<rparr>"
  let ?zip = "\<lparr>ext = ''zip'', mime = ''application/zip''\<rparr>"
  have bucket: "ExistingStorage_name sniffing_runtime = ''uploads''"
    by (simp add: sniffing_runtime_def demo_runtime_def)
  have alice: "''alice'' \<in> set (allowedUsernames sniffing_runtime)"
    by (simp add: allowedUsernames_def sniffing_runtime_def demo_runtime_def)

  have p1: "headers png_request ''content-type'' = Some ''application/octet-stream''"
    by (simp add: png_request_def)
  have p2: "body png_request = Some ''iVBORw0KGgo=''"
    by (simp add: png_request_def)
  have p3: "length (decodeBody sniffing_runtime png_request ''iVBORw0KGgo='') \<le> 50 * 1024 * 1024"
    by (simp only: png_bytes) simp
  have p4: "fileTypeFromBuffer sniffing_runtime
              (decodeBody sniffing_runtime png_request ''iVBORw0KGgo='') = Inr (Some ?png)"
    by (simp only: png_bytes sniffing_runtime_png)
  have p5: "resolveFilename sniffing_runtime (headers png_request ''content-disposition'')
                 (''upload-'' @ toString_decimal (dateNow sniffing_runtime) @ ''.'' @ ext ?png)
              = Inr ''shot.png''
            \<and> headers png_request ''soju-username'' = Some ''alice''
            \<and> ''alice'' \<in> set (allowedUsernames sniffing_runtime)"
    using alice by (simp add: resolveFilename_def png_request_def)
  have p6: "mime ?png = ''image/png''" by simp
  note png_case = upload_sniffed_type_decides [OF p1 p2 p3, THEN conjunct1, rule_format, OF p4,
      THEN conjunct2, rule_format, OF p5, THEN conjunct2, THEN conjunct2, rule_format, OF p6]
  then have one: "\<exists>k. Send (PutObjectCommand ''uploads'' k
               [0x89, 0x50, 0x4e, 0x47, 0x0d, 0x0a, 0x1a, 0x0a]
               ''image/png'' ''utf-8'' ''public-read'')
          \<in> set (snd (upload sniffing_runtime png_request))"
    by (simp only: png_bytes bucket)

  have z1: "headers zip_request ''content-type'' = Some ''application/octet-stream''"
    by (simp add: zip_request_def png_request_def)
  have z2: "body zip_request = Some ''UEsDBA==''"
    by (simp add: zip_request_def)
  have z3: "length (decodeBody sniffing_runtime zip_request ''UEsDBA=='') \<le> 50 * 1024 * 1024"
    by (simp only: zip_bytes) simp
  have z4: "fileTypeFromBuffer sniffing_runtime
              (decodeBody sniffing_runtime zip_request ''UEsDBA=='') = Inr (Some ?zip)"
    by (simp only: zip_bytes sniffing_runtime_zip)
  have z5: "resolveFilename sniffing_runtime (headers zip_request ''content-disposition'')
                 (''upload-'' @ toString_decimal (dateNow sniffing_runtime) @ ''.'' @ ext ?zip)
              = Inr ''shot.png''
            \<and> headers zip_request ''soju-username'' = Some ''alice''
            \<and> ''alice'' \<in> set (allowedUsernames sniffing_runtime)"
    using alice by (simp add: resolveFilename_def zip_request_def png_request_def)
  have z6: "mime ?zip \<notin> ALLOWED_MIME_TYPES"
    by (simp add: ALLOWED_MIME_TYPES_def)
  note zip_case = upload_sniffed_type_decides [OF z1 z2 z3, THEN conjunct1, rule_format, OF z4,
      THEN conjunct2, rule_format, OF z5, THEN conjunct2, THEN conjunct1, rule_format, OF z6]
  then have two: "upload sniffing_runtime zip_request =
       (\<lparr>statusCode = 400, body = ''ERR: Content type application/zip is not allowed'',
         headers = None\<rparr>, [])"
    by simp

  have t1: "headers text_request ''content-type'' = Some ''application/octet-stream''"
    by (simp add: text_request_def png_request_def)
  have t2: "body text_request = Some ''YWJj''"
    by (simp add: text_request_def)
  have t3: "length (decodeBody sniffing_runtime text_request ''YWJj'') \<le> 50 * 1024 * 1024"
    by (simp only: text_bytes) simp
  have t4: "fileTypeFromBuffer sniffing_runtime
              (decodeBody sniffing_runtime text_request ''YWJj'') = Inr None"
    by (simp only: text_bytes sniffing_runtime_text)
  have t5: "resolveFilename sniffing_runtime (headers text_request ''content-disposition'')
                 (''upload-'' @ toString_decimal (dateNow sniffing_runtime) @ ''.'' @ ''bin'')
              = Inr ''shot.png''
            \<and> headers text_request ''soju-username'' = Some ''alice''
            \<and> ''alice'' \<in> set (allowedUsernames sniffing_runtime)"
    using alice by (simp add: resolveFilename_def text_request_def png_request_def)
  note text_case = upload_sniffed_type_decides [OF t1 t2 t3, THEN conjunct2, rule_format, OF t4,
      THEN conjunct2, rule_format, OF t5]
  from one two text_case show ?thesis by (intro conjI)
qed

subsection \<open>C4: the size limit\<close>

text \<open>
  Claim C4: a request whose decoded body is longer than 50 MiB (50 * 1024 * 1024 bytes)
  is answered with status 413 and body \<open>ERR: File too large\<close>, whatever its headers
  are, and nothing is sent to the bucket; a decoded body of exactly 50 MiB is not
  answered with 413.
\<close>

theorem upload_file_too_large:
  assumes "body event = Some b"
  shows "(50 * 1024 * 1024 < length (decodeBody rt event b) \<longrightarrow>
            upload rt event =
              (\<lparr>statusCode = 413, body = ''ERR: File too large'', headers = None\<rparr>, []))
       \<and> (length (decodeBody rt event b) = 50 * 1024 * 1024 \<longrightarrow>
            statusCode (fst (upload rt event)) \<noteq> 413)"
proof (intro conjI impI)
  assume "50 * 1024 * 1024 < length (decodeBody rt event b)"
  with assms show "upload rt event =
      (\<lparr>statusCode = 413, body = ''ERR: File too large'', headers = None\<rparr>, [])"
    by (simp add: upload_def Let_def MAX_FILE_SIZE_def)
next
  assume len: "length (decodeBody rt event b) = 50 * 1024 * 1024"
  have store: "statusCode (fst (storeFile rt 201 g)) \<noteq> 413" for g
    using storeFile_status [of rt 201 g] by auto
  from assms len show "statusCode (fst (upload rt event)) \<noteq> 413"
    by (simp add: upload_def Let_def MAX_FILE_SIZE_def applicationError_def store
          split: sum.split option.split)
qed

theorem upload_file_too_large_witness:
  "upload demo_runtime
      \<lparr>headers = Map.empty, body = Some (replicate 52428801 CHR ''a''),
       isBase64Encoded = False\<rparr>
     = (\<lparr>statusCode = 413, body = ''ERR: File too large'', headers = None\<rparr>, [])
   \<and> statusCode (fst (upload demo_runtime
        (demo_event\<lparr>body := Some (replicate 52428800 CHR ''a'')\<rparr>))) \<noteq> 413"
proof -
  let ?big = "\<lparr>headers = Map.empty, body = Some (replicate 52428801 CHR ''a''),
               isBase64Encoded = False\<rparr>"
  let ?full = "demo_event\<lparr>body := Some (replicate 52428800 CHR ''a'')\<rparr>"
  have big: "50 * 1024 * 1024 < length (decodeBody demo_runtime ?big (replicate 52428801 CHR ''a''))"
    by (simp add: decodeBody_def demo_runtime_def)
  have full: "length (decodeBody demo_runtime ?full (replicate 52428800 CHR ''a'')) = 50 * 1024 * 1024"
    by (simp add: decodeBody_def demo_runtime_def)
  have "RequestEvent.body ?big = Some (replicate 52428801 CHR ''a'')" by simp
  from upload_file_too_large [OF this, of demo_runtime] big
  have one: "upload demo_runtime ?big
     = (\<lparr>statusCode = 413, body = ''ERR: File too large'', headers = None\<rparr>, [])"
    by blast
  have "RequestEvent.body ?full = Some (replicate 52428800 CHR ''a'')" by simp
  from upload_file_too_large [OF this, of demo_runtime] full
  have two: "statusCode (fst (upload demo_runtime ?full)) \<noteq> 413"
    by blast
  from one two show ?thesis by blast
qed

subsection \<open>C5: the identity check\<close>

text \<open>
  Claim C5: for a request whose body is within the size limit and whose file object is
  resolved, a missing \<open>soju-username\<close> header gives status 400 and a username that is
  not in the comma-separated \<open>USERNAME_ALLOW_LIST\<close> gives status 403. The first half
  holds, and so does the second for a non-empty list (lemmas \<open>upload_identity_check\<close>
  and \<open>upload_rejects_unlisted_username\<close>). The code misses the list that names
  nobody: with the variable unset, the request of alice sent with an empty
  \<open>soju-username\<close> header passes the identity check, is stored and answered with 201,
  not 403.
\<close>

theorem upload_unlisted_empty_username:
  "env (demo_runtime\<lparr>env := Map.empty\<rparr>) ''USERNAME_ALLOW_LIST'' = None
   \<and> headers (demo_event\<lparr>headers := (headers demo_event)(''soju-username'' \<mapsto> [])\<rparr>)
        ''soju-username'' = Some []
   \<and> resolveFile (demo_runtime\<lparr>env := Map.empty\<rparr>)
        (demo_event\<lparr>headers := (headers demo_event)(''soju-username'' \<mapsto> [])\<rparr>) [97, 98, 99]
       = Inr \<lparr>filename = ''example.jpg'', contentType = ''image/jpeg'',
              content = [97, 98, 99], encoding = ''utf-8''\<rparr>
   \<and> fst (upload (demo_runtime\<lparr>env := Map.empty\<rparr>)
        (demo_event\<lparr>headers := (headers demo_event)(''soju-username'' \<mapsto> [])\<rparr>)) =
       \<lparr>statusCode = 201,
        body = ''SUCCESS: https://uploads.s3.amazonaws.com/example-deadbe00.jpg'',
        headers = Some [(''location'',
                         ''https://uploads.s3.amazonaws.com/example-deadbe00.jpg'')]\<rparr>
   \<and> fst (upload (demo_runtime\<lparr>env := Map.empty\<rparr>)
        (demo_event\<lparr>headers := (headers demo_event)(''soju-username'' \<mapsto> [])\<rparr>)) \<noteq>
       \<lparr>statusCode = 403, body = ''ERR: Invalid username'', headers = None\<rparr>"
  by (simp add: handler_defs demo_defs)

subsection \<open>C6: the empty allow-list\<close>

text \<open>
  Claim C6: with \<open>USERNAME_ALLOW_LIST\<close> unset or empty every username, the empty one
  included, is rejected with status 403. The code rejects every non-empty username
  (lemma \<open>upload_default_allow_list_rejects_named\<close>) and lets the empty one through:
  \<open>"".split(",")\<close> is the list holding the empty string. For the request of alice
  sent with an empty \<open>soju-username\<close> header, the handler of part_001 stores the file
  and answers 201 when the variable is unset and when it is empty, and the handler of
  index.ts answers 200.
\<close>

theorem upload_empty_username_authorized:
  "upload (demo_runtime\<lparr>env := Map.empty\<rparr>)
      (demo_event\<lparr>headers := (headers demo_event)(''soju-username'' \<mapsto> [])\<rparr>) =
     (\<lparr>statusCode = 201,
       body = ''SUCCESS: https://uploads.s3.amazonaws.com/example-deadbe00.jpg'',
       headers = Some [(''location'', ''https://uploads.s3.amazonaws.com/example-deadbe00.jpg'')]\<rparr>,
      [Send (HeadObjectCommand ''uploads'' ''example-deadbe00.jpg''),
       ConsoleLog ''Uploading example.jpg to uploads as example-deadbe00.jpg...'',
       Send (PutObjectCommand ''uploads'' ''example-deadbe00.jpg'' [97, 98, 99]
               ''image/jpeg'' ''utf-8'' ''public-read'')])
   \<and> statusCode (fst (upload (demo_runtime\<lparr>env := [''USERNAME_ALLOW_LIST'' \<mapsto> []]\<rparr>)
      (demo_event\<lparr>headers := (headers demo_event)(''soju-username'' \<mapsto> [])\<rparr>))) = 201
   \<and> statusCode (fst (upload_index (demo_runtime\<lparr>env := Map.empty\<rparr>)
      (demo_event\<lparr>headers := (headers demo_event)(''soju-username'' \<mapsto> [])\<rparr>))) = 200"
  by (simp add: handler_defs demo_defs)

subsection \<open>C7: exhausted allocation\<close>

text \<open>
  Claim C7: when every probe finds its key occupied, the allocator makes three attempts,
  throws \<open>Could not generate a unique filename\<close>, the handler answers 500 and never
  writes. The code makes the three attempts, but the rejection of the fourth call is
  caught by the \<open>catch\<close> of the third, which returns the third candidate although its
  probe found it occupied: for every runtime whose \<open>send\<close> always resolves the allocator
  returns that key, and the handler writes to it and answers 201.
\<close>

theorem uniqueFilenameForBucket_all_occupied:
  "uniqueFilenameForBucket (rt\<lparr>send := (\<lambda>n c. None)\<rparr>) 0 f b 3 =
     (Inr (filenameWithRandomSuffix (randomBytes rt 2) f),
      [Send (HeadObjectCommand b (filenameWithRandomSuffix (randomBytes rt 0) f)),
       Send (HeadObjectCommand b (filenameWithRandomSuffix (randomBytes rt 1) f)),
       Send (HeadObjectCommand b (filenameWithRandomSuffix (randomBytes rt 2) f))])
   \<and> upload occupied_runtime demo_event =
     (\<lparr>statusCode = 201,
       body = ''SUCCESS: https://uploads.s3.amazonaws.com/example-deadbe02.jpg'',
       headers = Some [(''location'', ''https://uploads.s3.amazonaws.com/example-deadbe02.jpg'')]\<rparr>,
      [Send (HeadObjectCommand ''uploads'' ''example-deadbe00.jpg''),
       Send (HeadObjectCommand ''uploads'' ''example-deadbe01.jpg''),
       Send (HeadObjectCommand ''uploads'' ''example-deadbe02.jpg''),
       ConsoleLog ''Uploading example.jpg to uploads as example-deadbe02.jpg...'',
       Send (PutObjectCommand ''uploads'' ''example-deadbe02.jpg'' [97, 98, 99]
               ''image/jpeg'' ''utf-8'' ''public-read'')])"
proof
  show "uniqueFilenameForBucket (rt\<lparr>send := (\<lambda>n c. None)\<rparr>) 0 f b 3 =
     (Inr (filenameWithRandomSuffix (randomBytes rt 2) f),
      [Send (HeadObjectCommand b (filenameWithRandomSuffix (randomBytes rt 0) f)),
       Send (HeadObjectCommand b (filenameWithRandomSuffix (randomBytes rt 1) f)),
       Send (HeadObjectCommand b (filenameWithRandomSuffix (randomBytes rt 2) f))])"
    by (simp add: numeral_3_eq_3 numeral_2_eq_2 Let_def)
  show "upload occupied_runtime demo_event =
     (\<lparr>statusCode = 201,
       body = ''SUCCESS: https://uploads.s3.amazonaws.com/example-deadbe02.jpg'',
       headers = Some [(''location'', ''https://uploads.s3.amazonaws.com/example-deadbe02.jpg'')]\<rparr>,
      [Send (HeadObjectCommand ''uploads'' ''example-deadbe00.jpg''),
       Send (HeadObjectCommand ''uploads'' ''example-deadbe01.jpg''),
       Send (HeadObjectCommand ''uploads'' ''example-deadbe02.jpg''),
       ConsoleLog ''Uploading example.jpg to uploads as example-deadbe02.jpg...'',
       Send (PutObjectCommand ''uploads'' ''example-deadbe02.jpg'' [97, 98, 99]
               ''image/jpeg'' ''utf-8'' ''public-read'')])"
    by (simp add: handler_defs demo_defs occupied_runtime_def)
qed

subsection \<open>C8: no write before the last gate\<close>

text \<open>
  Claim C8 says that the write is never invoked when the response is not the success
  response. The handler of part_001 contradicts this where the write itself rejects: for
  the well-formed request of alice and a bucket that answers the write with
  \<open>SlowDown\<close>, the response has status 500 and the write was sent.
\<close>

theorem upload_failed_put_counterexample:
  "upload failing_put_runtime demo_event =
     (\<lparr>statusCode = 500, body = ''ERR: Application error: SlowDown'', headers = None\<rparr>,
      [Send (HeadObjectCommand ''uploads'' ''example-deadbe00.jpg''),
       ConsoleLog ''Uploading example.jpg to uploads as example-deadbe00.jpg...'',
       Send (PutObjectCommand ''uploads'' ''example-deadbe00.jpg'' [97, 98, 99]
               ''image/jpeg'' ''utf-8'' ''public-read'')])"
  by (simp add: handler_defs demo_defs failing_put_runtime_def)

text \<open>
  Claim C8 as amended: a response with status 400, 403 or 413 is returned before anything
  is sent to the bucket; and whenever the status is not 201, a write that was sent is the
  last command of the invocation, preceded only by existence probes and the log line,
  the bucket rejected that very command, and the response is the 500 carrying the
  message of that rejection.
\<close>

theorem upload_put_is_last_and_rejected:
  "(statusCode (fst (upload rt event)) \<in> {400, 403, 413} \<longrightarrow> snd (upload rt event) = [])
   \<and> (statusCode (fst (upload rt event)) \<noteq> 201 \<longrightarrow>
        (\<forall>bk k d ct e a.
           Send (PutObjectCommand bk k d ct e a) \<in> set (snd (upload rt event)) \<longrightarrow>
           (\<exists>fx l err.
               snd (upload rt event) = fx @ [ConsoleLog l, Send (PutObjectCommand bk k d ct e a)]
             \<and> (\<forall>x \<in> set fx. \<exists>key. x = Send (HeadObjectCommand bk key))
             \<and> send rt (length fx) (PutObjectCommand bk k d ct e a) = Some err
             \<and> fst (upload rt event) =
                 \<lparr>statusCode = 500, body = ''ERR: Application error: '' @ errorText err,
                  headers = None\<rparr>)))"
proof -
  consider
    (early) "snd (upload rt event) = []"
  | (store) g where "upload rt event = storeFile rt 201 g"
    using upload_cases [of rt event] by blast
  then show ?thesis
  proof cases
    case early
    then show ?thesis by simp
  next
    case store
    have status: "statusCode (fst (storeFile rt 201 g)) = 201
            \<or> statusCode (fst (storeFile rt 201 g)) = 500"
      by (rule storeFile_status)
    have first: "statusCode (fst (upload rt event)) \<in> {400, 403, 413} \<longrightarrow>
            snd (upload rt event) = []"
      unfolding store using status by auto
    have second: "statusCode (fst (upload rt event)) \<noteq> 201 \<longrightarrow>
        (\<forall>bk k d ct e a.
           Send (PutObjectCommand bk k d ct e a) \<in> set (snd (upload rt event)) \<longrightarrow>
           (\<exists>fx l err.
               snd (upload rt event) = fx @ [ConsoleLog l, Send (PutObjectCommand bk k d ct e a)]
             \<and> (\<forall>x \<in> set fx. \<exists>key. x = Send (HeadObjectCommand bk key))
             \<and> send rt (length fx) (PutObjectCommand bk k d ct e a) = Some err
             \<and> fst (upload rt event) =
                 \<lparr>statusCode = 500, body = ''ERR: Application error: '' @ errorText err,
                  headers = None\<rparr>))"
      unfolding store
    proof (intro impI allI)
      fix bk k d ct e a
      assume "statusCode (fst (storeFile rt 201 g)) \<noteq> 201"
        and "Send (PutObjectCommand bk k d ct e a) \<in> set (snd (storeFile rt 201 g))"
      then show "\<exists>fx l err.
           snd (storeFile rt 201 g) = fx @ [ConsoleLog l, Send (PutObjectCommand bk k d ct e a)]
         \<and> (\<forall>x \<in> set fx. \<exists>key. x = Send (HeadObjectCommand bk key))
         \<and> send rt (length fx) (PutObjectCommand bk k d ct e a) = Some err
         \<and> fst (storeFile rt 201 g) =
             \<lparr>statusCode = 500, body = ''ERR: Application error: '' @ errorText err,
              headers = None\<rparr>"
        by (rule storeFile_rejected_put)
    qed
    from first second show ?thesis by (rule conjI)
  qed
qed

theorem upload_put_is_last_and_rejected_witness:
  "statusCode (fst (upload demo_runtime
       (demo_event\<lparr>headers := (headers demo_event)(''soju-username'' \<mapsto> ''carol'')\<rparr>))) = 403
   \<and> snd (upload demo_runtime
       (demo_event\<lparr>headers := (headers demo_event)(''soju-username'' \<mapsto> ''carol'')\<rparr>)) = []
   \<and> statusCode (fst (upload failing_put_runtime demo_event)) = 500
   \<and> Send (PutObjectCommand ''uploads'' ''example-deadbe00.jpg'' [97, 98, 99]
               ''image/jpeg'' ''utf-8'' ''public-read'') \<in> set (snd (upload failing_put_runtime demo_event))
   \<and> (\<exists>fx l err.
         snd (upload failing_put_runtime demo_event) =
           fx @ [ConsoleLog l, Send (PutObjectCommand ''uploads'' ''example-deadbe00.jpg''
                   [97, 98, 99] ''image/jpeg'' ''utf-8'' ''public-read'')]
       \<and> send failing_put_runtime (length fx)
          (PutObjectCommand ''uploads'' ''example-deadbe00.jpg'' [97, 98, 99]
               ''image/jpeg'' ''utf-8'' ''public-read'') = Some err
       \<and> fst (upload failing_put_runtime demo_event) =
            \<lparr>statusCode = 500, body = ''ERR: Application error: '' @ errorText err,
             headers = None\<rparr>)"
proof -
  let ?carol = "demo_event\<lparr>headers := (headers demo_event)(''soju-username'' \<mapsto> ''carol'')\<rparr>"
  let ?put = "PutObjectCommand ''uploads'' ''example-deadbe00.jpg'' [97, 98, 99]
               ''image/jpeg'' ''utf-8'' ''public-read''"
  have s1: "statusCode (fst (upload demo_runtime ?carol)) = 403"
    by (simp add: handler_defs demo_defs)
  have s2: "statusCode (fst (upload failing_put_runtime demo_event)) = 500"
    by (simp add: handler_defs demo_defs failing_put_runtime_def)
  have s3: "Send ?put \<in> set (snd (upload failing_put_runtime demo_event))"
    by (simp add: handler_defs demo_defs failing_put_runtime_def)
  from s1 have in1: "statusCode (fst (upload demo_runtime ?carol)) \<in> {400, 403, 413}" by simp
  from s2 have ne: "statusCode (fst (upload failing_put_runtime demo_event)) \<noteq> 201" by simp
  note a = upload_put_is_last_and_rejected [of demo_runtime ?carol, THEN conjunct1, rule_format, OF in1]
  note b = upload_put_is_last_and_rejected [of failing_put_runtime demo_event, THEN conjunct2,
              rule_format, OF ne s3]
  from b obtain fx l err where
    r: "snd (upload failing_put_runtime demo_event) = fx @ [ConsoleLog l, Send ?put]"
       "send failing_put_runtime (length fx) ?put = Some err"
       "fst (upload failing_put_runtime demo_event) =
            \<lparr>statusCode = 500, body = ''ERR: Application error: '' @ errorText err,
             headers = None\<rparr>"
    by blast
  then have r3: "\<exists>fx l err.
         snd (upload failing_put_runtime demo_event) = fx @ [ConsoleLog l, Send ?put]
       \<and> send failing_put_runtime (length fx) ?put = Some err
       \<and> fst (upload failing_put_runtime demo_event) =
            \<lparr>statusCode = 500, body = ''ERR: Application error: '' @ errorText err,
             headers = None\<rparr>"
    by (intro exI conjI)
  from s1 a s2 s3 r3 show ?thesis by (intro conjI)
qed

subsection \<open>C9: what becomes of a rejection by the bucket\<close>




subsection \<open>C10: a content-disposition header without a filename\<close>

text \<open>
  Claim C10 says that a \<open>content-disposition\<close> header that is present and does not
  contain \<open>filename="\<close> makes the extraction throw and the handler answer 500. The
  header is tested for truthiness: a header that is present and empty contains no
  \<open>filename="\<close>, and the handler of part_001 synthesizes the fallback filename for it
  and answers 201.
\<close>

theorem upload_content_disposition_empty_counterexample:
  "headers (demo_event\<lparr>headers := (headers demo_event)(''content-disposition'' \<mapsto> [])\<rparr>)
       ''content-disposition'' = Some []
   \<and> \<not> sublist ''filename=\"'' []
   \<and> upload demo_runtime
       (demo_event\<lparr>headers := (headers demo_event)(''content-disposition'' \<mapsto> [])\<rparr>) =
     (\<lparr>statusCode = 201,
       body = ''SUCCESS: https://uploads.s3.amazonaws.com/upload-1700000000000-deadbe00.jpeg'',
       headers = Some [(''location'',
          ''https://uploads.s3.amazonaws.com/upload-1700000000000-deadbe00.jpeg'')]\<rparr>,
      [Send (HeadObjectCommand ''uploads'' ''upload-1700000000000-deadbe00.jpeg''),
       ConsoleLog
         ''Uploading upload-1700000000000.jpeg to uploads as upload-1700000000000-deadbe00.jpeg...'',
       Send (PutObjectCommand ''uploads'' ''upload-1700000000000-deadbe00.jpeg'' [97, 98, 99]
               ''image/jpeg'' ''utf-8'' ''public-read'')])"
  by (simp add: handler_defs demo_defs)

text \<open>
  Claim C10 as amended: for a \<open>content-disposition\<close> header that is not empty and does
  not contain \<open>filename="\<close>, the filename extraction throws a \<open>TypeError\<close> whatever
  the fallback is; a request with such a header that reaches the extraction (part_001:
  body present and at most 50 MiB once decoded; index.ts: body present and not empty)
  is answered with status 500 and a body beginning \<open>ERR: Application error:\<close>, and
  nothing is sent to the bucket.
\<close>

theorem upload_content_disposition_without_filename:
  assumes "headers event ''content-disposition'' = Some cd"
    and "cd \<noteq> []"
    and "\<not> sublist ''filename=\"'' cd"
  shows "resolveFilename rt (headers event ''content-disposition'') fallback
           = Inl (Error (typeErrorMessage rt))
       \<and> (\<forall>b. body event = Some b \<and> length (decodeBody rt event b) \<le> 50 * 1024 * 1024 \<longrightarrow>
             statusCode (fst (upload rt event)) = 500
           \<and> prefix ''ERR: Application error:'' (response.body (fst (upload rt event)))
           \<and> snd (upload rt event) = [])
       \<and> (\<forall>b. body event = Some b \<and> b \<noteq> [] \<longrightarrow>
             upload_index rt event =
               (\<lparr>statusCode = 500,
                 body = ''ERR: Application error: '' @ typeErrorMessage rt,
                 headers = None\<rparr>, []))"
proof -
  have split: "js_split ''filename=\"'' cd = [cd]"
    using assms(3) by (rule js_split_no_occurrence)
  have name: "resolveFilename rt (headers event ''content-disposition'') fb
           = Inl (Error (typeErrorMessage rt))" for fb
    using assms(1,2) split by (simp add: resolveFilename_def)
  have thrown: "\<exists>e. resolveFile rt event buffer = Inl e" for buffer
    by (simp add: resolveFile_def name split: sum.split prod.split)
  have one: "statusCode (fst (upload rt event)) = 500
           \<and> prefix ''ERR: Application error:'' (response.body (fst (upload rt event)))
           \<and> snd (upload rt event) = []"
    if "body event = Some b \<and> length (decodeBody rt event b) \<le> 50 * 1024 * 1024" for b
  proof -
    from thrown obtain e where "resolveFile rt event (decodeBody rt event b) = Inl e" by blast
    with that show ?thesis
      by (simp add: upload_def Let_def MAX_FILE_SIZE_def applicationError_def)
  qed
  have two: "upload_index rt event =
               (\<lparr>statusCode = 500,
                 body = ''ERR: Application error: '' @ typeErrorMessage rt,
                 headers = None\<rparr>, [])"
    if "body event = Some b \<and> b \<noteq> []" for b
    using that by (simp add: upload_index_def resolveFile_index_def name applicationError_def)
  from name one two show ?thesis by blast
qed

theorem upload_content_disposition_without_filename_witness:
  "statusCode (fst (upload demo_runtime
      (demo_event\<lparr>headers := (headers demo_event)(''content-disposition'' \<mapsto> ''attachment'')\<rparr>)))
     = 500
   \<and> prefix ''ERR: Application error:'' (response.body (fst (upload demo_runtime
      (demo_event\<lparr>headers := (headers demo_event)(''content-disposition'' \<mapsto> ''attachment'')\<rparr>))))
   \<and> snd (upload demo_runtime
      (demo_event\<lparr>headers := (headers demo_event)(''content-disposition'' \<mapsto> ''attachment'')\<rparr>))
     = []
   \<and> statusCode (fst (upload_index demo_runtime
      (demo_event\<lparr>headers := (headers demo_event)(''content-disposition'' \<mapsto> ''attachment'')\<rparr>)))
     = 500"
proof -
  let ?ev = "demo_event\<lparr>headers := (headers demo_event)(''content-disposition'' \<mapsto> ''attachment'')\<rparr>"
  have h1: "headers ?ev ''content-disposition'' = Some ''attachment''" by simp
  have h2: "''attachment'' \<noteq> []" by simp
  have h3: "\<not> sublist ''filename=\"'' ''attachment''" by code_simp
  have b1: "body ?ev = Some ''abc''
      \<and> length (decodeBody demo_runtime ?ev ''abc'') \<le> 50 * 1024 * 1024"
    by (simp add: decodeBody_def demo_defs)
  have b2: "body ?ev = Some ''abc'' \<and> ''abc'' \<noteq> []"
    by (simp add: demo_defs)
  from upload_content_disposition_without_filename [OF h1 h2 h3, of demo_runtime] b1 b2
  have "statusCode (fst (upload demo_runtime ?ev)) = 500
      \<and> prefix ''ERR: Application error:'' (response.body (fst (upload demo_runtime ?ev)))
      \<and> snd (upload demo_runtime ?ev) = []
      \<and> upload_index demo_runtime ?ev =
               (\<lparr>statusCode = 500,
                 body = ''ERR: Application error: '' @ typeErrorMessage demo_runtime,
                 headers = None\<rparr>, [])"
    by blast
  then show ?thesis by simp
qed

end
